theory Spec2Isabelle
  imports Complex_Main "HOL-Library.Monad_Syntax"
begin

section \<open>Strings\<close>

text \<open>
  Python \<open>str\<close> values are modelled as \<open>string\<close>, one \<open>char\<close> per code point; the
  export files are ISO-8859-1, so every code point is below 256. \<open>is_space\<close> is the
  whitespace of \<open>str.strip()\<close> on that range, \<open>is_alpha\<close> the letters of
  \<open>str.isalpha()\<close>. \<open>upper_char\<close> upper-cases the ASCII letters only: the result of
  \<open>str.upper()\<close> on the other code points is never an ASCII letter of a carrier token,
  so the comparison with \<open>DHL\<close> and \<open>PN\<close> is the same.
\<close>

definition is_space :: "char \<Rightarrow> bool" where
  "is_space c = (let n = (of_char c :: nat) in
      (9 \<le> n \<and> n \<le> 13) \<or> (28 \<le> n \<and> n \<le> 32) \<or> n = 133 \<or> n = 160)"

definition is_alpha :: "char \<Rightarrow> bool" where
  "is_alpha c = (let n = (of_char c :: nat) in
      (65 \<le> n \<and> n \<le> 90) \<or> (97 \<le> n \<and> n \<le> 122) \<or> n = 170 \<or> n = 181 \<or> n = 186
      \<or> (192 \<le> n \<and> n \<le> 214) \<or> (216 \<le> n \<and> n \<le> 246) \<or> (248 \<le> n \<and> n \<le> 255))"

definition upper_char :: "char \<Rightarrow> char" where
  "upper_char c = (let n = (of_char c :: nat) in
      if 97 \<le> n \<and> n \<le> 122
      then (case c of Char b0 b1 b2 b3 b4 b5 b6 b7 \<Rightarrow> Char b0 b1 b2 b3 b4 False b6 b7)
      else c)"

definition lower_char :: "char \<Rightarrow> char" where
  "lower_char c = (let n = (of_char c :: nat) in
      if 65 \<le> n \<and> n \<le> 90
      then (case c of Char b0 b1 b2 b3 b4 b5 b6 b7 \<Rightarrow> Char b0 b1 b2 b3 b4 True b6 b7)
      else c)"

text \<open>\<open>s.strip()\<close>, \<open>s.upper()\<close>, \<open>s.isalpha()\<close> and \<open>s.split(d)\<close>.\<close>

definition strip :: "string \<Rightarrow> string" where
  "strip s = rev (dropWhile is_space (rev (dropWhile is_space s)))"

definition upper :: "string \<Rightarrow> string" where
  "upper s = map upper_char s"

definition isalpha :: "string \<Rightarrow> bool" where
  "isalpha s = (s \<noteq> [] \<and> list_all is_alpha s)"

fun split_on :: "char \<Rightarrow> string \<Rightarrow> string list" where
  "split_on d [] = [[]]"
| "split_on d (c # cs) =
     (if c = d then [] # split_on d cs
      else (case split_on d cs of [] \<Rightarrow> [[c]] | p # ps \<Rightarrow> (c # p) # ps))"

section \<open>Postal codes (carriers/dhl.py)\<close>

text \<open>
  \<^verbatim>\<open>
  def clean_postal_code(zipcode, country=""):
      cleaned = zipcode.strip()
      if len(cleaned) > 3 and cleaned[2] == "-" and cleaned[:2].isalpha():
          cleaned = cleaned[3:]
      return cleaned
  \<close>
\<close>

definition clean_postal_code :: "string \<Rightarrow> string" where
  "clean_postal_code zipcode =
     (let cleaned = strip zipcode in
      if length cleaned > 3 \<and> cleaned ! 2 = CHR ''-'' \<and> isalpha (take 2 cleaned)
      then drop 3 cleaned
      else cleaned)"

section \<open>Service codes (parsers/models.py, parsers/xml_parser.py)\<close>

datatype CarrierType = DHL | POSTNORD

fun carrier_value :: "CarrierType \<Rightarrow> string" where
  "carrier_value DHL = ''DHL''"
| "carrier_value POSTNORD = ''PN''"

text \<open>\<open>CarrierType(v)\<close>: the member whose value is \<open>v\<close>; \<open>None\<close> is the ValueError.\<close>

definition CarrierType_of :: "string \<Rightarrow> CarrierType option" where
  "CarrierType_of v =
     (if v = ''DHL'' then Some DHL else if v = ''PN'' then Some POSTNORD else None)"

text \<open>
  Both failures of \<open>_parse_srvid\<close> are a ValueError; they differ in the message: the
  first names the code, the second the carrier token and the code.
\<close>

datatype srvid_error = InvalidSrvid string | UnknownCarrier string string

definition parse_srvid :: "string \<Rightarrow> srvid_error + (CarrierType \<times> string \<times> string)" where
  "parse_srvid srvid =
     (let parts = split_on (CHR '':'') srvid in
      if length parts < 2 then Inl (InvalidSrvid srvid)
      else
        let carrier_str = upper (strip (parts ! 0));
            product_code = strip (parts ! 1);
            addon = (if length parts > 2 then strip (parts ! 2) else [])
        in (case CarrierType_of carrier_str of
              None \<Rightarrow> Inl (UnknownCarrier carrier_str srvid)
            | Some carrier \<Rightarrow> Inr (carrier, product_code, addon)))"

section \<open>Floats\<close>

text \<open>
  A Python \<open>float\<close>: a finite value, an infinity or NaN. The code compares floats
  with constants and copies them, nothing else, and on the finite floats this is exact
  on the reals. \<open>py_le\<close> and \<open>py_lt\<close> are \<open><=\<close> and \<open><\<close>: every comparison
  with NaN is false.
\<close>

datatype pyfloat = Fin real | PInf | NInf | NaN

fun py_le :: "pyfloat \<Rightarrow> pyfloat \<Rightarrow> bool" where
  "py_le NaN _ = False"
| "py_le _ NaN = False"
| "py_le NInf _ = True"
| "py_le _ PInf = True"
| "py_le (Fin a) (Fin b) = (a \<le> b)"
| "py_le _ _ = False"

fun py_lt :: "pyfloat \<Rightarrow> pyfloat \<Rightarrow> bool" where
  "py_lt NaN _ = False"
| "py_lt _ NaN = False"
| "py_lt PInf _ = False"
| "py_lt _ NInf = False"
| "py_lt (Fin a) (Fin b) = (a < b)"
| "py_lt _ _ = True"

section \<open>The shipment model (parsers/models.py)\<close>

text \<open>The dataclasses as records; \<open>Optional\<close> fields are options.\<close>

record Receiver =
  rcvid :: string
  name :: string
  address1 :: string
  address2 :: string
  zipcode :: string
  city :: string
  country :: string
  phone :: string
  email :: string
  contact :: string
  sms :: string

record Container =
  container_type :: string
  measure :: string
  copies :: int
  package_code :: string
  contents :: string
  weight :: pyfloat
  volume :: pyfloat
  length_c :: pyfloat
  width :: pyfloat
  height :: pyfloat

record BookingInfo =
  pickup_booking :: bool
  pickup_date :: string

record Notification =
  opt_id :: string
  message :: string

record ServiceInfo =
  carrier :: CarrierType
  product_code :: string
  addon :: string
  raw_srvid :: string
  booking :: "BookingInfo option"

record Shipment =
  order_no :: string
  sender_name :: string
  reference :: string
  term_code :: string
  service :: "ServiceInfo option"
  receiver :: "Receiver option"
  containers :: "Container list"
  notifications :: "Notification list"
  delivery_instruction :: string


definition ServiceInfo_default :: ServiceInfo where
  "ServiceInfo_default =
     \<lparr>carrier = DHL, product_code = [], addon = [], raw_srvid = [], booking = None\<rparr>"

section \<open>The DHL creation payload (carriers/dhl.py)\<close>

text \<open>
  A configuration dict is a map from keys to strings; \<open>d.get(k, default)\<close> is
  \<open>dict_get\<close>. The two module tables are association lists.
\<close>

definition dict_get :: "(string \<rightharpoonup> string) \<Rightarrow> string \<Rightarrow> string \<Rightarrow> string" where
  "dict_get d k dflt = (case d k of None \<Rightarrow> dflt | Some v \<Rightarrow> v)"

definition ADDON_MAPPING :: "(string \<times> string) list" where
  "ADDON_MAPPING =
     [(''notification'', ''notification''),
      (''AVIS'', ''notification''),
      (''preAdviceDelivery'', ''preAdviceDelivery''),
      (''tailLiftUnloading'', ''tailLiftUnloading''),
      (''tailLiftLoading'', ''tailLiftLoading''),
      (''indoorDelivery'', ''indoorDelivery''),
      (''dangerousGoods'', ''dangerousGoods''),
      (''insurance'', ''insurance''),
      (''collectionAtTerminal'', ''collectionAtTerminal''),
      (''nonStackable'', ''nonStackable'')]"

definition PACKAGE_TYPE_DEFAULTS :: "(string \<times> string) list" where
  "PACKAGE_TYPE_DEFAULTS = [(''210'', ''701'')]"

record Address =
  street :: string
  cityName :: string
  postalCode :: string
  countryCode :: string

text \<open>The consignee has no \<open>id\<close> key, hence the option.\<close>

record Party =
  party_id :: "string option"
  party_type :: string
  party_name :: string
  references :: "string list"
  address :: Address
  party_phone :: string
  party_email :: string

text \<open>The dimensions are keys that are present only when they are positive.\<close>

record Piece =
  piece_id :: "string list"
  packageType :: string
  numberOfPieces :: int
  piece_weight :: pyfloat
  piece_volume :: pyfloat
  piece_length :: "pyfloat option"
  piece_width :: "pyfloat option"
  piece_height :: "pyfloat option"

record PayerCode =
  code :: string
  location :: string

record TransportInstruction =
  ti_id :: string
  productCode :: string
  shippingDate :: string
  deliveryInstruction :: string
  pickupInstruction :: string
  totalNumberOfPieces :: int
  totalWeight :: pyfloat
  totalVolume :: pyfloat
  payerCode :: PayerCode
  parties :: "Party list"
  additionalServices :: "(string \<times> bool) list"
  pieces :: "Piece list"

text \<open>
  The errors of the carrier client. \<open>AttributeError\<close> is the attribute read on
  \<open>None\<close> (a shipment without service or receiver).
\<close>

datatype build_error = AttributeError string

record DHLClient_config =
  customer_number :: string
  sender :: "string \<rightharpoonup> string"

text \<open>
  \<open>_build_transport_instruction\<close>; \<open>today\<close> is \<open>date.today().isoformat()\<close>. The
  reads follow the source's order: the product code of the service first, the
  receiver's postal code later.
\<close>

definition build_transport_instruction ::
  "DHLClient_config \<Rightarrow> string \<Rightarrow> Shipment \<Rightarrow> build_error + TransportInstruction" where
  "build_transport_instruction self today shipment =
     (let recv_opt = receiver shipment;
          container = (case containers shipment of [] \<Rightarrow> None | c # _ \<Rightarrow> Some c)
      in case service shipment of
           None \<Rightarrow> Inl (AttributeError ''product_code'')
         | Some svc \<Rightarrow>
      let product_code' = product_code svc;
          weight' = (case container of Some c \<Rightarrow> weight c | None \<Rightarrow> Fin 1.0);
          volume0 = (case container of Some c \<Rightarrow> volume c | None \<Rightarrow> Fin 0.001);
          volume' = (if py_le volume0 (Fin 0) then Fin 0.001 else volume0);
          copies' = (case container of Some c \<Rightarrow> copies c | None \<Rightarrow> 1);
          shipping_date =
            (case booking svc of
               Some b \<Rightarrow> if pickup_date b \<noteq> [] then pickup_date b else today
             | None \<Rightarrow> today);
          sender_zip = clean_postal_code (dict_get (sender self) ''zipcode'' [])
      in case recv_opt of
           None \<Rightarrow> Inl (AttributeError ''zipcode'')
         | Some recv \<Rightarrow>
      let recv_zip = clean_postal_code (zipcode recv);
          parties' =
            [\<lparr>party_id = Some (customer_number self),
              party_type = ''Consignor'',
              party_name = dict_get (sender self) ''name'' [],
              references = (if reference shipment \<noteq> [] then [reference shipment] else []),
              address = \<lparr>street = dict_get (sender self) ''address1'' [],
                         cityName = dict_get (sender self) ''city'' [],
                         postalCode = sender_zip,
                         countryCode = dict_get (sender self) ''country'' ''SE''\<rparr>,
              party_phone = dict_get (sender self) ''phone'' [],
              party_email = dict_get (sender self) ''email'' []\<rparr>,
             \<lparr>party_id = None,
              party_type = ''Consignee'',
              party_name = name recv,
              references = [],
              address = \<lparr>street = address1 recv,
                         cityName = city recv,
                         postalCode = recv_zip,
                         countryCode = country recv\<rparr>,
              party_phone = phone recv,
              party_email = email recv\<rparr>];
          pkg_type =
            (case container of
               Some c \<Rightarrow>
                 if package_code c \<noteq> [] then package_code c
                 else dict_get (map_of PACKAGE_TYPE_DEFAULTS) product_code' ''PKT''
             | None \<Rightarrow> dict_get (map_of PACKAGE_TYPE_DEFAULTS) product_code' ''PKT'');
          pieces' =
            [\<lparr>piece_id = [[]],
              packageType = pkg_type,
              numberOfPieces = copies',
              piece_weight = weight',
              piece_volume = volume',
              piece_length =
                (case container of
                   Some c \<Rightarrow> if py_lt (Fin 0) (length_c c) then Some (length_c c) else None
                 | None \<Rightarrow> None),
              piece_width =
                (case container of
                   Some c \<Rightarrow> if py_lt (Fin 0) (width c) then Some (width c) else None
                 | None \<Rightarrow> None),
              piece_height =
                (case container of
                   Some c \<Rightarrow> if py_lt (Fin 0) (height c) then Some (height c) else None
                 | None \<Rightarrow> None)\<rparr>];
          additional_services =
            (if addon svc \<noteq> []
             then [(dict_get (map_of ADDON_MAPPING) (addon svc) (addon svc), True)]
             else [])
      in Inr \<lparr>ti_id = [],
              productCode = product_code',
              shippingDate = shipping_date,
              deliveryInstruction = delivery_instruction shipment,
              pickupInstruction = [],
              totalNumberOfPieces = copies',
              totalWeight = weight',
              totalVolume = volume',
              payerCode = \<lparr>code = ''1'', location = []\<rparr>,
              parties = parties',
              additionalServices = additional_services,
              pieces = pieces'\<rparr>)"

section \<open>The PostNord booking payload (carriers/postnord.py)\<close>





section \<open>Containers in the export (parsers/xml_parser.py)\<close>

text \<open>
  An ElementTree element: tag, attributes, text (\<open>None\<close> when the element is empty)
  and children. \<open>findall\<close> with a plain tag selects the children with that tag, in
  document order.
\<close>

datatype xml = Element (tag: string) (attrib: "(string \<times> string) list")
  (text_of: "string option") (children: "xml list")

definition attr_get :: "xml \<Rightarrow> string \<Rightarrow> string \<Rightarrow> string" where
  "attr_get e k dflt = (case map_of (attrib e) k of None \<Rightarrow> dflt | Some v \<Rightarrow> v)"

definition findall :: "string \<Rightarrow> xml \<Rightarrow> xml list" where
  "findall t e = filter (\<lambda>c. tag c = t) (children e)"

text \<open>
  \<open>_extract_vals\<close> builds a dict by comprehension, so of two \<open>val\<close> children with the
  same key the later one stays: the pairs are kept in document order and
  \<open>vals_get\<close> (the dict's \<open>get\<close>) reads the last one.
\<close>

definition extract_vals :: "xml \<Rightarrow> (string \<times> string) list" where
  "extract_vals e =
     map (\<lambda>v. (attr_get v ''n'' [], strip (case text_of v of None \<Rightarrow> [] | Some t \<Rightarrow> t)))
         (findall ''val'' e)"

definition vals_get :: "(string \<times> string) list \<Rightarrow> string \<Rightarrow> string \<Rightarrow> string" where
  "vals_get vals k dflt = (case map_of (rev vals) k of None \<Rightarrow> dflt | Some v \<Rightarrow> v)"

text \<open>
  \<open>int(x)\<close> truncates a finite float towards zero and raises on NaN (ValueError) and
  on the infinities (OverflowError). Python's \<open>float(s)\<close> is a parameter \<open>to_float\<close>
  of the parser (\<open>None\<close> is its ValueError); it accepts \<open>nan\<close> and \<open>inf\<close>, so it
  can return every \<open>pyfloat\<close>. \<open>digits_float\<close> is \<open>float\<close> on the strings of
  decimal digits and on \<open>nan\<close>, where the two agree, and serves the concrete
  evaluations.
\<close>

datatype parse_error = ValueError string | OverflowError string

definition py_int :: "pyfloat \<Rightarrow> parse_error + int" where
  "py_int x =
     (case x of
        Fin r \<Rightarrow> Inr (if r \<ge> 0 then \<lfloor>r\<rfloor> else \<lceil>r\<rceil>)
      | NaN \<Rightarrow> Inl (ValueError ''cannot convert float NaN to integer'')
      | _ \<Rightarrow> Inl (OverflowError ''cannot convert float infinity to integer''))"

definition is_digit :: "char \<Rightarrow> bool" where
  "is_digit c = (let n = (of_char c :: nat) in 48 \<le> n \<and> n \<le> 57)"

definition digits_float :: "string \<Rightarrow> pyfloat option" where
  "digits_float s =
     (if s \<noteq> [] \<and> list_all is_digit s
      then Some (Fin (real (foldl (\<lambda>acc c. 10 * acc + (of_char c - 48)) 0 s)))
      else if s = ''nan'' then Some NaN
      else None)"

definition parse_container ::
  "(string \<Rightarrow> pyfloat option) \<Rightarrow> xml \<Rightarrow> parse_error + Container" where
  "parse_container to_float elem =
     (let vals = extract_vals elem in
      case to_float (vals_get vals ''copies'' ''1'') of
        None \<Rightarrow> Inl (ValueError (vals_get vals ''copies'' ''1''))
      | Some cp \<Rightarrow>
     (case py_int cp of
        Inl e \<Rightarrow> Inl e
      | Inr copies' \<Rightarrow>
     (case to_float (vals_get vals ''weight'' ''0'') of
        None \<Rightarrow> Inl (ValueError (vals_get vals ''weight'' ''0''))
      | Some w \<Rightarrow>
     (case to_float (vals_get vals ''volume'' ''0'') of
        None \<Rightarrow> Inl (ValueError (vals_get vals ''volume'' ''0''))
      | Some v \<Rightarrow>
      Inr \<lparr>container_type = attr_get elem ''type'' ''parcel'',
           measure = attr_get elem ''measure'' [],
           copies = copies',
           package_code = vals_get vals ''packagecode'' ''PC'',
           contents = vals_get vals ''contents'' [],
           weight = w,
           volume = v,
           length_c = Fin 0, width = Fin 0, height = Fin 0\<rparr>))))"

section \<open>Example data\<close>

definition example_config :: DHLClient_config where
  "example_config =
     \<lparr>customer_number = ''123456'',
      sender = [''zipcode'' \<mapsto> ''43133'', ''name'' \<mapsto> ''Avsandare AB'']\<rparr>"

definition example_receiver :: Receiver where
  "example_receiver =
     \<lparr>rcvid = ''7631'', name = ''Test Mottagare AB'', address1 = ''Kungsgatan 1'',
      address2 = [], zipcode = ''41101'', city = ''Goteborg'', country = ''SE'',
      phone = [], email = ''test@test.se'', contact = [], sms = []\<rparr>"

definition example_shipment ::
  "CarrierType \<Rightarrow> string \<Rightarrow> BookingInfo option \<Rightarrow> Container list \<Rightarrow> Shipment" where
  "example_shipment k product b cs =
     \<lparr>order_no = ''107739'', sender_name = [], reference = ''107739'', term_code = ''S'',
      service = Some \<lparr>carrier = k, product_code = product, addon = [],
                      raw_srvid = carrier_value k @ '':'' @ product, booking = b\<rparr>,
      receiver = Some example_receiver, containers = cs, notifications = [],
      delivery_instruction = []\<rparr>"

text \<open>A container element whose \<open>packagecode\<close> field is present and blank.\<close>

definition blank_packagecode_container :: xml where
  "blank_packagecode_container =
     Element ''container'' [(''type'', ''parcel'')] None
       [Element ''val'' [(''n'', ''copies'')] (Some ''1'') [],
        Element ''val'' [(''n'', ''packagecode'')] (Some ''   '') [],
        Element ''val'' [(''n'', ''weight'')] (Some ''5'') []]"

definition blank_packagecode_parsed :: Container where
  "blank_packagecode_parsed =
     \<lparr>container_type = ''parcel'', measure = [], copies = 1, package_code = [],
      contents = [], weight = Fin 5, volume = Fin 0, length_c = Fin 0, width = Fin 0,
      height = Fin 0\<rparr>"

text \<open>
  The rule for the shipping date in the words of the specification, where a booking
  is requested when its pick-up flag is set.
\<close>

definition spec_shipping_date :: "BookingInfo option \<Rightarrow> string \<Rightarrow> string" where
  "spec_shipping_date b today =
     (case b of
        Some bk \<Rightarrow> if pickup_booking bk \<and> pickup_date bk \<noteq> [] then pickup_date bk else today
      | None \<Rightarrow> today)"

text \<open>A container element without a \<open>packagecode\<close> field, and what the parser makes of it.\<close>

definition omitted_packagecode_container :: xml where
  "omitted_packagecode_container =
     Element ''container'' [(''type'', ''parcel'')] None
       [Element ''val'' [(''n'', ''copies'')] (Some ''2'') [],
        Element ''val'' [(''n'', ''weight'')] (Some ''5'') []]"

definition omitted_packagecode_parsed :: Container where
  "omitted_packagecode_parsed =
     \<lparr>container_type = ''parcel'', measure = [], copies = 2, package_code = ''PC'',
      contents = [], weight = Fin 5, volume = Fin 0, length_c = Fin 0, width = Fin 0,
      height = Fin 0\<rparr>"



section \<open>The DHL Print API (carriers/dhl.py)\<close>

text \<open>
  A decoded JSON value. An object is the list of its members in document order; a
  Python dict keeps the last of two members with the same key, which \<open>obj_get\<close>
  (the dict's \<open>get\<close>, \<open>None\<close> for a missing key) does too. \<open>truthy\<close> is Python's
  truth value of the decoded value.
\<close>

datatype json = JNull | JBool bool | JNum pyfloat | JStr string
  | JArr "json list" | JObj "(string \<times> json) list"

definition obj_get :: "(string \<times> json) list \<Rightarrow> string \<Rightarrow> json option" where
  "obj_get kvs k = map_of (rev kvs) k"

fun truthy :: "json \<Rightarrow> bool" where
  "truthy JNull = False"
| "truthy (JBool b) = b"
| "truthy (JNum x) = (x \<noteq> Fin 0)"
| "truthy (JStr s) = (s \<noteq> [])"
| "truthy (JArr xs) = (xs \<noteq> [])"
| "truthy (JObj kvs) = (kvs \<noteq> [])"

text \<open>\<open>sub in s\<close> on strings.\<close>

fun contains :: "string \<Rightarrow> string \<Rightarrow> bool" where
  "contains sub [] = (sub = [])"
| "contains sub (c # cs) = (take (length sub) (c # cs) = sub \<or> contains sub cs)"

text \<open>
  What the client reads of a \<open>requests.Response\<close>: the status code, the
  \<open>Content-Type\<close> header (\<open>None\<close> when absent), the body as bytes and as text, and
  the body decoded by \<open>response.json()\<close> (\<open>None\<close> when that raises).
\<close>

record response =
  status_code :: nat
  content_type :: "string option"
  resp_content :: string
  resp_text :: string
  resp_json :: "json option"

text \<open>
  The exceptions of the client, all of them subclasses of \<open>Exception\<close>. The four
  RuntimeErrors of the source are told apart by their message; the rest are what the
  libraries and malformed responses raise.
\<close>

datatype client_error =
    NoReportsError string string
  | EmptyContentError string
  | LabelUnavailableError string
  | NoCachedTIError string
  | HTTPError nat
  | RequestException string
  | JSONDecodeError
  | ShapeError
  | Base64Error

text \<open>
  \<open>base64.b64decode\<close> is a parameter \<open>b64\<close> of the functions that decode
  (\<open>None\<close> is \<open>binascii.Error\<close>). \<open>session.post\<close> is a parameter \<open>post\<close>: from
  the URL and the JSON body to a response or the exception of the request.
\<close>

type_synonym b64decode = "string \<Rightarrow> string option"

type_synonym http_post = "string \<Rightarrow> json \<Rightarrow> client_error + response"

definition header_content_type :: "response \<Rightarrow> string" where
  "header_content_type resp = (case content_type resp of None \<Rightarrow> [] | Some c \<Rightarrow> c)"

definition raise_for_status :: "response \<Rightarrow> client_error + response" where
  "raise_for_status r =
     (if 400 \<le> status_code r \<and> status_code r < 600 then Inl (HTTPError (status_code r))
      else Inr r)"

text \<open>
  The loop of \<open>_extract_label_from_response\<close> that looks for the first report of type
  \<open>Label\<close>; \<open>report.get\<close> on a report that is not an object raises.
\<close>

fun find_label :: "json list \<Rightarrow> client_error + json option" where
  "find_label [] = Inr None"
| "find_label (JObj kvs # rs) =
     (if obj_get kvs ''type'' = Some (JStr ''Label'') then Inr (Some (JObj kvs))
      else find_label rs)"
| "find_label (_ # rs) = Inl ShapeError"

text \<open>The end of \<open>_extract_label_from_response\<close>: the content of the chosen report.\<close>

definition decode_report :: "b64decode \<Rightarrow> string \<Rightarrow> json \<Rightarrow> client_error + string" where
  "decode_report b64 endpoint label_report =
     (case label_report of
        JObj kvs \<Rightarrow>
          (let content_b64 = (case obj_get kvs ''content'' of None \<Rightarrow> JStr [] | Some c \<Rightarrow> c)
           in if truthy content_b64
              then (case content_b64 of
                      JStr s \<Rightarrow> (case b64 s of None \<Rightarrow> Inl Base64Error | Some d \<Rightarrow> Inr d)
                    | _ \<Rightarrow> Inl ShapeError)
              else Inl (EmptyContentError endpoint))
      | _ \<Rightarrow> Inl ShapeError)"

definition extract_label_from_response ::
  "b64decode \<Rightarrow> response \<Rightarrow> string \<Rightarrow> client_error + string" where
  "extract_label_from_response b64 resp endpoint =
     (let ctype = header_content_type resp in
      if contains ''application/pdf'' ctype \<or> contains ''application/octet-stream'' ctype
      then Inr (resp_content resp)
      else if contains ''json'' ctype
      then (case resp_json resp of
              None \<Rightarrow> Inl JSONDecodeError
            | Some (JObj kvs) \<Rightarrow>
                (let reports = (case obj_get kvs ''reports'' of None \<Rightarrow> JArr [] | Some r \<Rightarrow> r)
                 in if \<not> truthy reports
                    then Inl (NoReportsError endpoint (take 200 (resp_text resp)))
                    else (case reports of
                            JArr rs \<Rightarrow>
                              (case find_label rs of
                                 Inl e \<Rightarrow> Inl e
                               | Inr (Some r) \<Rightarrow> decode_report b64 endpoint r
                               | Inr None \<Rightarrow> decode_report b64 endpoint (hd rs))
                          | _ \<Rightarrow> Inl ShapeError))
            | Some _ \<Rightarrow> Inl ShapeError)
      else Inr (resp_content resp))"

text \<open>
  \<open>_extract_document_from_response\<close>: the first report of the wanted type whose
  content is not empty; \<open>None\<close> when there is none.
\<close>

fun find_document :: "b64decode \<Rightarrow> string \<Rightarrow> json list \<Rightarrow> client_error + string option" where
  "find_document b64 doc_type [] = Inr None"
| "find_document b64 doc_type (JObj kvs # rs) =
     (if obj_get kvs ''type'' = Some (JStr doc_type)
      then (let content_b64 = (case obj_get kvs ''content'' of None \<Rightarrow> JStr [] | Some c \<Rightarrow> c)
            in if truthy content_b64
               then (case content_b64 of
                       JStr s \<Rightarrow> (case b64 s of None \<Rightarrow> Inl Base64Error | Some d \<Rightarrow> Inr (Some d))
                     | _ \<Rightarrow> Inl ShapeError)
               else find_document b64 doc_type rs)
      else find_document b64 doc_type rs)"
| "find_document b64 doc_type (_ # rs) = Inl ShapeError"

definition extract_document_from_response ::
  "b64decode \<Rightarrow> response \<Rightarrow> string \<Rightarrow> client_error + string option" where
  "extract_document_from_response b64 resp doc_type =
     (let ctype = header_content_type resp in
      if \<not> contains ''json'' ctype then Inr None
      else (case resp_json resp of
              None \<Rightarrow> Inl JSONDecodeError
            | Some (JObj kvs) \<Rightarrow>
                (case (case obj_get kvs ''reports'' of None \<Rightarrow> JArr [] | Some r \<Rightarrow> r) of
                   JArr rs \<Rightarrow> find_document b64 doc_type rs
                 | JObj [] \<Rightarrow> Inr None
                 | JStr [] \<Rightarrow> Inr None
                 | _ \<Rightarrow> Inl ShapeError)
            | Some _ \<Rightarrow> Inl ShapeError))"

text \<open>The client: its configuration, the base URL and the cache of creation responses.\<close>

record DHLClient =
  client_config :: DHLClient_config
  base_url :: string
  ti_cache :: "string \<rightharpoonup> json"

definition print_documents_path :: string where
  "print_documents_path = ''/printapi/v1/print/printdocuments''"

definition print_by_id_path :: string where
  "print_by_id_path = ''/printapi/v1/print/printdocumentsbyid''"

definition print_documents :: "http_post \<Rightarrow> b64decode \<Rightarrow> DHLClient \<Rightarrow> json \<Rightarrow> client_error + string" where
  "print_documents post b64 self ti_data =
     (case post (base_url self @ print_documents_path)
             (JObj [(''shipment'', ti_data), (''options'', JObj [(''label'', JBool True)])]) of
        Inl e \<Rightarrow> Inl e
      | Inr resp \<Rightarrow>
          (case raise_for_status resp of
             Inl e \<Rightarrow> Inl e
           | Inr resp' \<Rightarrow> extract_label_from_response b64 resp' ''printdocuments''))"

definition print_documents_by_id ::
  "http_post \<Rightarrow> b64decode \<Rightarrow> DHLClient \<Rightarrow> string \<Rightarrow> client_error + string" where
  "print_documents_by_id post b64 self shipment_id =
     (case post (base_url self @ print_by_id_path)
             (JObj [(''transportInstructionId'', JStr shipment_id),
                    (''options'', JObj [(''label'', JBool True)])]) of
        Inl e \<Rightarrow> Inl e
      | Inr resp \<Rightarrow>
          (case raise_for_status resp of
             Inl e \<Rightarrow> Inl e
           | Inr resp' \<Rightarrow> extract_label_from_response b64 resp' ''printdocumentsbyid''))"

text \<open>
  \<open>get_label\<close>. \<open>if ti_data\<close> is the truth value of the cached object, so a cached
  empty object counts as no cache. Both \<open>except Exception\<close> clauses only log.
\<close>

definition get_label :: "http_post \<Rightarrow> b64decode \<Rightarrow> DHLClient \<Rightarrow> string \<Rightarrow> client_error + string" where
  "get_label post b64 self shipment_id =
     (let by_id =
            (case print_documents_by_id post b64 self shipment_id of
               Inr d \<Rightarrow> Inr d
             | Inl _ \<Rightarrow> Inl (LabelUnavailableError shipment_id))
      in case ti_cache self shipment_id of
           None \<Rightarrow> by_id
         | Some ti_data \<Rightarrow>
             if truthy ti_data
             then (case print_documents post b64 self ti_data of
                     Inr d \<Rightarrow> Inr d
                   | Inl _ \<Rightarrow> by_id)
             else by_id)"

text \<open>
  \<open>get_all_documents\<close>: the label and the optional shipment list. The second request
  and its extraction are inside \<open>try ... except Exception\<close>, so each of their
  failures leaves the shipment list \<open>None\<close>.
\<close>

definition get_all_documents ::
  "http_post \<Rightarrow> b64decode \<Rightarrow> DHLClient \<Rightarrow> string \<Rightarrow> client_error + (string \<times> string option)" where
  "get_all_documents post b64 self shipment_id =
     (case ti_cache self shipment_id of
        None \<Rightarrow> Inl (NoCachedTIError shipment_id)
      | Some ti_data \<Rightarrow>
          if \<not> truthy ti_data then Inl (NoCachedTIError shipment_id)
          else (case print_documents post b64 self ti_data of
                  Inl e \<Rightarrow> Inl e
                | Inr label \<Rightarrow>
                    (let shipment_list =
                       (case post (base_url self @ print_documents_path)
                               (JObj [(''shipment'', ti_data),
                                      (''options'', JObj [(''shipmentList'', JBool True)])]) of
                          Inl _ \<Rightarrow> None
                        | Inr resp \<Rightarrow>
                            (case raise_for_status resp of
                               Inl _ \<Rightarrow> None
                             | Inr resp' \<Rightarrow>
                                 (case extract_document_from_response b64 resp' ''ShipmentList'' of
                                    Inl _ \<Rightarrow> None
                                  | Inr d \<Rightarrow> d)))
                     in Inr (label, shipment_list))))"


text \<open>
  A report that the search for the label passes over: an object whose type is not
  \<open>Label\<close>.
\<close>

fun other_report :: "json \<Rightarrow> bool" where
  "other_report (JObj kvs) = (obj_get kvs ''type'' \<noteq> Some (JStr ''Label''))"
| "other_report _ = False"

text \<open>Example responses of the Print API, and the decoder on the contents they use.\<close>

definition example_b64 :: b64decode where
  "example_b64 = map_of [(''TEFCRUwgUERG'', ''LABEL PDF''), (''TElTVCBQREY='', ''LIST PDF'')]"

definition list_report :: json where
  "list_report = JObj [(''name'', JStr ''shipmentlist.pdf''), (''content'', JStr ''TElTVCBQREY=''),
                       (''contentType'', JStr ''application/pdf''), (''type'', JStr ''ShipmentList''),
                       (''valid'', JBool True)]"

definition label_report :: json where
  "label_report = JObj [(''name'', JStr ''label.pdf''), (''content'', JStr ''TEFCRUwgUERG''),
                        (''contentType'', JStr ''application/pdf''), (''type'', JStr ''Label''),
                        (''valid'', JBool True)]"

definition empty_label_report :: json where
  "empty_label_report = JObj [(''name'', JStr ''label.pdf''), (''content'', JStr []),
                              (''contentType'', JStr ''application/pdf''), (''type'', JStr ''Label''),
                              (''valid'', JBool True)]"

definition json_response :: "json list \<Rightarrow> response" where
  "json_response reports =
     \<lparr>status_code = 200, content_type = Some ''application/json'',
      resp_content = ''{...}'', resp_text = ''{...}'',
      resp_json = Some (JObj [(''reports'', JArr reports)])\<rparr>"

definition pdf_response :: response where
  "pdf_response =
     \<lparr>status_code = 200, content_type = Some ''application/pdf'',
      resp_content = ''%PDF-1.6 binary content'', resp_text = [], resp_json = None\<rparr>"

text \<open>
  A Print API on which only the request by identifier works: every other request is
  answered with status 500. And two clients, without and with a cached creation
  response for \<open>TI-1\<close>.
\<close>

definition by_id_only_post :: http_post where
  "by_id_only_post url body =
     (if url = ''https://api'' @ print_by_id_path then Inr (json_response [label_report])
      else Inr ((json_response []) \<lparr>status_code := 500\<rparr>))"

definition both_work_post :: http_post where
  "both_work_post url body = Inr (json_response [label_report])"

definition client_without_cache :: DHLClient where
  "client_without_cache =
     \<lparr>client_config = example_config, base_url = ''https://api'', ti_cache = Map.empty\<rparr>"

definition client_with_cache :: DHLClient where
  "client_with_cache =
     \<lparr>client_config = example_config, base_url = ''https://api'',
      ti_cache = [''TI-1'' \<mapsto> JObj [(''id'', JStr ''TI-1'')]]\<rparr>"

section \<open>Files, locks and events (orchestrator.py)\<close>

text \<open>
  A \<open>pathlib.Path\<close> is a directory and a name. \<open>suffix_of\<close> and \<open>with_suffix\<close>
  are the \<open>suffix\<close> property and \<open>with_suffix\<close> method of pathlib: the suffix starts
  at the last dot of the name when that dot is neither the first nor the last
  character, and \<open>with_suffix\<close> raises ValueError on an empty name.
\<close>

datatype path = Path (parent: string) (fname: string)

datatype py_exception = PyException string

fun str_of :: "py_exception \<Rightarrow> string" where
  "str_of (PyException m) = m"

fun last_dot :: "string \<Rightarrow> nat option" where
  "last_dot [] = None"
| "last_dot (c # cs) =
     (case last_dot cs of
        Some i \<Rightarrow> Some (Suc i)
      | None \<Rightarrow> if c = CHR ''.'' then Some 0 else None)"

definition suffix_of :: "string \<Rightarrow> string" where
  "suffix_of nm =
     (case last_dot nm of
        Some i \<Rightarrow> if 0 < i \<and> Suc i < length nm then drop i nm else []
      | None \<Rightarrow> [])"

definition with_suffix :: "path \<Rightarrow> string \<Rightarrow> py_exception + path" where
  "with_suffix p suffix =
     (if fname p = [] then Inl (PyException ''ValueError: empty name'')
      else Inr (Path (parent p)
                  (take (length (fname p) - length (suffix_of (fname p))) (fname p) @ suffix)))"

text \<open>
  The file system is a map from paths to files with a content and a modification
  time. It is changed only by the orchestrator (no other process is modelled), and of
  the ways a file operation can fail the model has the two that depend on the file
  system itself: creating a file that exists and moving a file that does not.
\<close>

record fsfile =
  fcontent :: string
  mtime :: real

type_synonym fs = "path \<rightharpoonup> fsfile"

datatype event =
    ShipmentOk string string string
  | ShipmentError string string
  | FileDone string
  | FileError string string

text \<open>
  The state that \<open>process_file\<close> works on: the files, the events handed to
  \<open>_notify\<close> in order, the exceptions of the callback that \<open>_notify\<close> caught and
  logged, and the world of the collaborators (carrier, printer, mail), of which the
  orchestrator knows nothing.
\<close>

record 'w ostate =
  files :: fs
  notified :: "event list"
  callback_errors :: "py_exception list"
  world :: 'w

text \<open>
  The orchestrator: its directories, the clock readings (\<open>datetime.now()\<close> as a
  timestamp and formatted by \<open>strftime\<close>), the parser as a function of the file's
  content, and the methods of the collaborators it calls. A collaborator changes the
  world and returns a value or raises an exception (a subclass of \<open>Exception\<close>).
\<close>

record 'w orchestrator =
  done_dir :: string
  error_dir :: string
  label_cache :: string
  now :: real
  time_stamp :: string
  parse_xml :: "string \<Rightarrow> py_exception + Shipment list"
  dhl_create_shipment :: "Shipment \<Rightarrow> 'w \<Rightarrow> (py_exception + string \<times> string) \<times> 'w"
  dhl_get_all_documents :: "string \<Rightarrow> 'w \<Rightarrow> (py_exception + string \<times> string option) \<times> 'w"
  dhl_request_pickup :: "string \<Rightarrow> string \<Rightarrow> 'w \<Rightarrow> (py_exception + unit) \<times> 'w"
  printer_print_label :: "string \<Rightarrow> string \<Rightarrow> string \<Rightarrow> 'w \<Rightarrow> (py_exception + bool) \<times> 'w"
  printer_print_document :: "string \<Rightarrow> string \<Rightarrow> string \<Rightarrow> 'w \<Rightarrow> (py_exception + bool) \<times> 'w"
  emailer_send_tracking_email ::
    "string \<Rightarrow> string \<Rightarrow> string \<Rightarrow> CarrierType \<Rightarrow> string \<Rightarrow> 'w \<Rightarrow> (py_exception + bool) \<times> 'w"

text \<open>
  The registered callback \<open>on_event\<close>, if any: from the events notified before (all
  that a callback can remember) and the event to \<open>None\<close>, or to the exception it
  raises.
\<close>

type_synonym callback = "(event list \<Rightarrow> event \<Rightarrow> py_exception option) option"

text \<open>Sequencing of steps that can raise: the first exception ends the sequence.\<close>

definition and_then ::
  "('s \<Rightarrow> (py_exception + 'a) \<times> 's) \<Rightarrow> ('a \<Rightarrow> 's \<Rightarrow> (py_exception + 'b) \<times> 's)
   \<Rightarrow> 's \<Rightarrow> (py_exception + 'b) \<times> 's" where
  "and_then m f st =
     (case m st of
        (Inl e, st') \<Rightarrow> (Inl e, st')
      | (Inr x, st') \<Rightarrow> f x st')"

definition call ::
  "('w \<Rightarrow> (py_exception + 'a) \<times> 'w) \<Rightarrow> 'w ostate \<Rightarrow> (py_exception + 'a) \<times> 'w ostate" where
  "call m st = (case m (world st) of (r, w') \<Rightarrow> (r, st\<lparr>world := w'\<rparr>))"

definition write_file :: "'w orchestrator \<Rightarrow> path \<Rightarrow> string \<Rightarrow> 'w ostate
   \<Rightarrow> (py_exception + unit) \<times> 'w ostate" where
  "write_file self p content st =
     (Inr (), st\<lparr>files := (files st)(p \<mapsto> \<lparr>fcontent = content, mtime = now self\<rparr>)\<rparr>)"

text \<open>\<open>shutil.move\<close> of a file.\<close>

definition move_file :: "path \<Rightarrow> path \<Rightarrow> 'w ostate \<Rightarrow> (py_exception + unit) \<times> 'w ostate" where
  "move_file src dest st =
     (case files st src of
        None \<Rightarrow> (Inl (PyException ''FileNotFoundError''), st)
      | Some f \<Rightarrow> (Inr (), st\<lparr>files := ((files st)(src := None))(dest \<mapsto> f)\<rparr>))"

text \<open>
  \<^verbatim>\<open>
  def _notify(self, event_type, data):
      if self.on_event:
          try:
              self.on_event(event_type, data)
          except Exception as e:
              logger.warning(...)
  \<close>
\<close>

definition notify :: "callback \<Rightarrow> event \<Rightarrow> 'w ostate \<Rightarrow> 'w ostate" where
  "notify on_event ev st =
     (let st' = st\<lparr>notified := notified st @ [ev]\<rparr> in
      case on_event of
        None \<Rightarrow> st'
      | Some f \<Rightarrow>
          (case f (notified st) ev of
             None \<Rightarrow> st'
           | Some e \<Rightarrow> st'\<lparr>callback_errors := callback_errors st @ [e]\<rparr>))"

text \<open>
  \<open>_acquire_lock\<close>. \<open>open("x")\<close> creates the marker or raises FileExistsError; the
  marker then exists, and it is replaced when it is older than 300 seconds.
\<close>

definition acquire_lock :: "'w orchestrator \<Rightarrow> path \<Rightarrow> 'w ostate
   \<Rightarrow> (py_exception + bool) \<times> 'w ostate" where
  "acquire_lock self filepath st =
     (case with_suffix filepath ''.lock'' of
        Inl e \<Rightarrow> (Inl e, st)
      | Inr lock_path \<Rightarrow>
          (case files st lock_path of
             None \<Rightarrow>
               (Inr True,
                st\<lparr>files := (files st)(lock_path \<mapsto> \<lparr>fcontent = [], mtime = now self\<rparr>)\<rparr>)
           | Some marker \<Rightarrow>
               (let age = now self - mtime marker in
                if age > 300
                then (Inr True,
                      st\<lparr>files := ((files st)(lock_path := None))
                                     (lock_path \<mapsto> \<lparr>fcontent = [], mtime = now self\<rparr>)\<rparr>)
                else (Inr False, st))))"

definition release_lock :: "path \<Rightarrow> 'w ostate \<Rightarrow> 'w ostate" where
  "release_lock filepath st =
     (case with_suffix filepath ''.lock'' of
        Inl e \<Rightarrow> st
      | Inr lock_path \<Rightarrow> st\<lparr>files := (files st)(lock_path := None)\<rparr>)"

definition move_to_done :: "'w orchestrator \<Rightarrow> path \<Rightarrow> 'w ostate
   \<Rightarrow> (py_exception + unit) \<times> 'w ostate" where
  "move_to_done self filepath st =
     move_file filepath (Path (done_dir self) (time_stamp self @ ''_'' @ fname filepath)) st"

definition error_text :: "string \<Rightarrow> string \<Rightarrow> string \<Rightarrow> string" where
  "error_text ts nm reason =
     ''Tid: '' @ ts @ [CHR 0x0A] @ ''Fil: '' @ nm @ [CHR 0x0A] @ ''Fel: '' @ reason @ [CHR 0x0A]"

definition move_to_error :: "'w orchestrator \<Rightarrow> path \<Rightarrow> string \<Rightarrow> 'w ostate
   \<Rightarrow> (py_exception + unit) \<times> 'w ostate" where
  "move_to_error self filepath reason =
     (let dest = Path (error_dir self) (time_stamp self @ ''_'' @ fname filepath) in
      and_then (move_file filepath dest) (\<lambda>_ st.
        (case with_suffix dest ''.error.txt'' of
           Inl e \<Rightarrow> (Inl e, st)
         | Inr error_log \<Rightarrow>
             write_file self error_log
               (error_text (time_stamp self) (fname filepath) reason) st)))"

text \<open>
  \<open>_process_single\<close>, step by step. The message of the ValueError for a carrier
  other than DHL is written in ASCII.
\<close>

definition request_pickup_if_booked :: "'w orchestrator \<Rightarrow> ServiceInfo \<Rightarrow> string \<Rightarrow> 'w ostate
   \<Rightarrow> (py_exception + unit) \<times> 'w ostate" where
  "request_pickup_if_booked self svc shipment_id =
     (case booking svc of
        None \<Rightarrow> Pair (Inr ())
      | Some b \<Rightarrow>
          if pickup_booking b \<and> pickup_date b \<noteq> []
          then call (dhl_request_pickup self shipment_id (pickup_date b))
          else Pair (Inr ()))"

definition save_and_print_list :: "'w orchestrator \<Rightarrow> Shipment \<Rightarrow> string option \<Rightarrow> 'w ostate
   \<Rightarrow> (py_exception + unit) \<times> 'w ostate" where
  "save_and_print_list self shipment shipment_list =
     (case shipment_list of
        None \<Rightarrow> Pair (Inr ())
      | Some d \<Rightarrow>
          if d = [] then Pair (Inr ())
          else and_then
                 (write_file self
                    (Path (label_cache self) (order_no shipment @ ''_shipmentlist.pdf'')) d)
                 (\<lambda>_. and_then (call (printer_print_document self d ''pdf'' (order_no shipment)))
                    (\<lambda>_. Pair (Inr ()))))"

definition send_customer_mail :: "'w orchestrator \<Rightarrow> Shipment \<Rightarrow> CarrierType \<Rightarrow> string
   \<Rightarrow> 'w ostate \<Rightarrow> (py_exception + unit) \<times> 'w ostate" where
  "send_customer_mail self shipment carrier' tracking =
     (let has_enot = list_ex (\<lambda>n. opt_id n = ''enot'') (notifications shipment) in
      case receiver shipment of
        None \<Rightarrow> Pair (Inr ())
      | Some recv \<Rightarrow>
          if email recv \<noteq> [] \<and> has_enot
          then (let custom_msg =
                      (case filter (\<lambda>n. opt_id n = ''enot'') (notifications shipment) of
                         [] \<Rightarrow> []
                       | n # _ \<Rightarrow> message n)
                in and_then
                     (call (emailer_send_tracking_email self (email recv) (order_no shipment)
                              tracking carrier' custom_msg))
                     (\<lambda>_. Pair (Inr ())))
          else Pair (Inr ()))"

definition process_single :: "'w orchestrator \<Rightarrow> callback \<Rightarrow> Shipment \<Rightarrow> 'w ostate
   \<Rightarrow> (py_exception + unit) \<times> 'w ostate" where
  "process_single self on_event shipment =
     (case service shipment of
        None \<Rightarrow> Pair (Inl (PyException ''AttributeError: carrier''))
      | Some svc \<Rightarrow>
          if carrier svc = DHL
          then
            and_then (call (dhl_create_shipment self shipment)) (\<lambda>(shipment_id, tracking).
            and_then (call (dhl_get_all_documents self shipment_id)) (\<lambda>(label_data, shipment_list).
            and_then (request_pickup_if_booked self svc shipment_id) (\<lambda>_.
            and_then (write_file self (Path (label_cache self) (order_no shipment @ ''.pdf''))
                        label_data) (\<lambda>_.
            and_then (call (printer_print_label self label_data ''pdf'' (order_no shipment))) (\<lambda>_.
            and_then (save_and_print_list self shipment shipment_list) (\<lambda>_.
            and_then (send_customer_mail self shipment (carrier svc) tracking) (\<lambda>_ st.
              (Inr (),
               notify on_event
                 (ShipmentOk (order_no shipment) tracking (carrier_value (carrier svc))) st))))))))
          else Pair (Inl (PyException
                 (''Transportor '' @ carrier_value (carrier svc) @ '' stods inte annu. Stodda: DHL''))))"

text \<open>The loop of \<open>process_file\<close> over the shipments, with the flag \<open>all_ok\<close>.\<close>

fun process_shipments :: "'w orchestrator \<Rightarrow> callback \<Rightarrow> Shipment list \<Rightarrow> bool \<Rightarrow> 'w ostate
   \<Rightarrow> bool \<times> 'w ostate" where
  "process_shipments self on_event [] all_ok st = (all_ok, st)"
| "process_shipments self on_event (shipment # rest) all_ok st =
     (case process_single self on_event shipment st of
        (Inr _, st') \<Rightarrow> process_shipments self on_event rest all_ok st'
      | (Inl e, st') \<Rightarrow>
          process_shipments self on_event rest False
            (notify on_event (ShipmentError (order_no shipment) (str_of e)) st'))"

text \<open>\<open>ET.parse(filepath)\<close> followed by the parser: the file must exist.\<close>

definition parse_file :: "'w orchestrator \<Rightarrow> path \<Rightarrow> 'w ostate
   \<Rightarrow> (py_exception + Shipment list) \<times> 'w ostate" where
  "parse_file self filepath st =
     (case files st filepath of
        None \<Rightarrow> (Inl (PyException ''FileNotFoundError''), st)
      | Some f \<Rightarrow> (parse_xml self (fcontent f), st))"

definition partial_failure :: string where
  "partial_failure = ''Delvis misslyckad bearbetning''"

text \<open>The \<open>try\<close> block of \<open>process_file\<close>.\<close>

definition process_file_try :: "'w orchestrator \<Rightarrow> callback \<Rightarrow> path \<Rightarrow> 'w ostate
   \<Rightarrow> (py_exception + bool) \<times> 'w ostate" where
  "process_file_try self on_event filepath =
     and_then (parse_file self filepath) (\<lambda>shipments st.
       (case process_shipments self on_event shipments True st of
          (all_ok, st') \<Rightarrow>
            if all_ok
            then and_then (move_to_done self filepath)
                   (\<lambda>_ st''. (Inr True, notify on_event (FileDone (fname filepath)) st'')) st'
            else and_then (move_to_error self filepath partial_failure)
                   (\<lambda>_ st''. (Inr False,
                       notify on_event (FileError (fname filepath) partial_failure) st'')) st'))"

text \<open>
  The \<open>try\<close> block with the \<open>except Exception\<close> clause of \<open>process_file\<close>; the
  move in the clause can raise, and then the exception leaves \<open>process_file\<close>.
\<close>

definition process_file_except :: "'w orchestrator \<Rightarrow> callback \<Rightarrow> path \<Rightarrow> 'w ostate
   \<Rightarrow> (py_exception + bool) \<times> 'w ostate" where
  "process_file_except self on_event filepath st =
     (case process_file_try self on_event filepath st of
        (Inr all_ok, st') \<Rightarrow> (Inr all_ok, st')
      | (Inl e, st') \<Rightarrow>
          and_then (move_to_error self filepath (str_of e))
            (\<lambda>_ st''. (Inr False,
                notify on_event (FileError (fname filepath) (str_of e)) st'')) st')"

text \<open>
  \<open>process_file\<close>: the lock, the \<open>try\<close> statement and its \<open>finally\<close> clause, which
  runs on every way out of the \<open>try\<close> statement.
\<close>

definition process_file :: "'w orchestrator \<Rightarrow> callback \<Rightarrow> path \<Rightarrow> 'w ostate
   \<Rightarrow> (py_exception + bool) \<times> 'w ostate" where
  "process_file self on_event filepath st =
     (case acquire_lock self filepath st of
        (Inl e, st1) \<Rightarrow> (Inl e, st1)
      | (Inr False, st1) \<Rightarrow> (Inr False, st1)
      | (Inr True, st1) \<Rightarrow>
          (case process_file_except self on_event filepath st1 of
             (r, st4) \<Rightarrow> (r, release_lock filepath st4)))"

text \<open>
  For the statements about the loop: what \<open>_process_single\<close> does for each shipment
  in turn, returning or raising, and the event that belongs to a shipment and its
  outcome.
\<close>

fun shipment_outcomes :: "'w orchestrator \<Rightarrow> callback \<Rightarrow> Shipment list \<Rightarrow> 'w ostate
   \<Rightarrow> (py_exception + unit) list" where
  "shipment_outcomes self on_event [] st = []"
| "shipment_outcomes self on_event (shipment # rest) st =
     (case process_single self on_event shipment st of
        (Inr u, st') \<Rightarrow> Inr u # shipment_outcomes self on_event rest st'
      | (Inl e, st') \<Rightarrow>
          Inl e # shipment_outcomes self on_event rest
                    (notify on_event (ShipmentError (order_no shipment) (str_of e)) st'))"

fun event_for :: "Shipment \<Rightarrow> py_exception + unit \<Rightarrow> event \<Rightarrow> bool" where
  "event_for shipment (Inl e) ev = (ev = ShipmentError (order_no shipment) (str_of e))"
| "event_for shipment (Inr _) (ShipmentOk order_no' tracking carrier') =
     (order_no' = order_no shipment)"
| "event_for shipment (Inr _) _ = False"


text \<open>
  Two relations between the state before and after a step, for the proofs: a quiet
  step notifies nothing and removes no file; a shipment's step removes no file and
  notifies one \<open>shipment_ok\<close> event for the shipment when it returns, and nothing
  when it raises.
\<close>

definition quiet :: "'w ostate \<Rightarrow> 'w ostate \<Rightarrow> bool" where
  "quiet st st' = (notified st' = notified st \<and> dom (files st) \<subseteq> dom (files st'))"

definition shipment_post ::
  "Shipment \<Rightarrow> 'w ostate \<Rightarrow> py_exception + unit \<Rightarrow> 'w ostate \<Rightarrow> bool" where
  "shipment_post shipment st r st' =
     (dom (files st) \<subseteq> dom (files st')
      \<and> (case r of
            Inl e \<Rightarrow> notified st' = notified st
          | Inr u \<Rightarrow> (\<exists>ev. notified st' = notified st @ [ev] \<and> event_for shipment r ev)))"

text \<open>
  An orchestrator for the examples. Its world is the list of the bookings made; the
  carrier refuses the order \<open>B\<close>, everything else succeeds. The file \<open>two\<close> holds
  the shipments \<open>A\<close> and \<open>B\<close>, the file \<open>one\<close> the shipment \<open>A\<close>.
\<close>

definition example_order :: "string \<Rightarrow> Shipment" where
  "example_order n = (example_shipment DHL ''102'' None []) \<lparr>order_no := n\<rparr>"

definition example_orchestrator :: "string list orchestrator" where
  "example_orchestrator =
     \<lparr>done_dir = ''done'', error_dir = ''error'', label_cache = ''labels'',
      now = 1000, time_stamp = ''20260101_120000'',
      parse_xml = (\<lambda>content.
         if content = ''two'' then Inr [example_order ''A'', example_order ''B'']
         else if content = ''one'' then Inr [example_order ''A'']
         else Inl (PyException ''ParseError'')),
      dhl_create_shipment = (\<lambda>s w.
         if order_no s = ''B'' then (Inl (PyException ''500 Server Error''), w)
         else (Inr (''TI-'' @ order_no s, ''TRK-'' @ order_no s), w @ [order_no s])),
      dhl_get_all_documents = (\<lambda>sid w. (Inr (''LABEL PDF'', None), w)),
      dhl_request_pickup = (\<lambda>sid d w. (Inr (), w)),
      printer_print_label = (\<lambda>d fmt n w. (Inr True, w)),
      printer_print_document = (\<lambda>d fmt n w. (Inr True, w)),
      emailer_send_tracking_email = (\<lambda>to n t k msg w. (Inr True, w))\<rparr>"

definition example_state :: "string \<Rightarrow> real option \<Rightarrow> string list ostate" where
  "example_state content marker =
     \<lparr>files = [Path ''in'' ''order.xml'' \<mapsto> \<lparr>fcontent = content, mtime = 990\<rparr>]
               ++ (case marker of
                     None \<Rightarrow> Map.empty
                   | Some t \<Rightarrow> [Path ''in'' ''order.lock'' \<mapsto> \<lparr>fcontent = [], mtime = t\<rparr>]),
      notified = [], callback_errors = [], world = []\<rparr>"

text \<open>A callback that raises on every event.\<close>

definition failing_callback :: callback where
  "failing_callback = Some (\<lambda>before ev. Some (PyException ''consumer failed''))"


section \<open>Properties of the string functions\<close>

lemma split_on_nonempty: "split_on d s \<noteq> []"
  by (induction s) (auto split: list.splits)

lemma split_on_no_delim: "d \<notin> set s \<Longrightarrow> split_on d s = [s]"
  by (induction s) auto

lemma split_on_append: "d \<notin> set p \<Longrightarrow> split_on d (p @ d # rest) = p # split_on d rest"
  by (induction p) auto

lemma split_on_length: "length (split_on d s) = Suc (length (filter (\<lambda>c. c = d) s))"
  by (induction s) (auto split: list.splits simp: split_on_nonempty)

lemma split_on_single_iff: "length (split_on d s) < 2 \<longleftrightarrow> d \<notin> set s"
  by (auto simp add: split_on_length filter_empty_conv less_Suc_eq_le)

lemma is_space_lower: "is_space (lower_char c) = is_space c"
  by (cases c) (auto simp: is_space_def lower_char_def Let_def)

lemma upper_lower_char: "upper_char (lower_char c) = upper_char c"
  by (cases c) (auto simp: upper_char_def lower_char_def Let_def)

lemma strip_map_lower: "strip (map lower_char s) = map lower_char (strip s)"
proof -
  have c: "is_space \<circ> lower_char = is_space"
    by (rule ext) (simp add: is_space_lower)
  show ?thesis
    by (simp add: strip_def rev_map dropWhile_map c)
qed

lemma upper_strip_lower: "upper (strip (map lower_char s)) = upper (strip s)"
  by (simp add: strip_map_lower upper_def upper_lower_char)

section \<open>Postal-code normalisation\<close>

lemma clean_postal_code_prefix:
  "strip z = a # b # CHR ''-'' # r \<Longrightarrow> r \<noteq> [] \<Longrightarrow> is_alpha a \<Longrightarrow> is_alpha b
   \<Longrightarrow> clean_postal_code z = r"
  by (cases r) (simp_all add: clean_postal_code_def isalpha_def)

lemma clean_postal_code_unchanged:
  "length (strip z) \<le> 3 \<or> strip z ! 2 \<noteq> CHR ''-''
     \<or> \<not> is_alpha (strip z ! 0) \<or> \<not> is_alpha (strip z ! 1)
   \<Longrightarrow> clean_postal_code z = strip z"
  by (cases "strip z"; cases "tl (strip z)")
     (auto simp add: clean_postal_code_def isalpha_def Let_def)

text \<open>
  C8. The postal code is trimmed; a prefix of two letters and a hyphen is removed when
  something follows it (the trimmed code is longer than 3 characters), and only then:
  a trimmed code of at most 3 characters, one whose position 2 is not a hyphen, or one
  whose first two characters are not both letters is returned trimmed and otherwise
  unchanged. \<open>DK-5220\<close> gives \<open>5220\<close>, \<open>43133\<close> between blanks gives \<open>43133\<close>,
  \<open>123\<close> stays \<open>123\<close>.
\<close>

theorem clean_postal_code_spec:
  "clean_postal_code ''DK-5220'' = ''5220''
   \<and> clean_postal_code ''  43133  '' = ''43133''
   \<and> clean_postal_code ''123'' = ''123''
   \<and> (strip z = a # b # CHR ''-'' # r \<and> r \<noteq> [] \<and> is_alpha a \<and> is_alpha b
        \<longrightarrow> clean_postal_code z = r)
   \<and> (length (strip z) \<le> 3 \<or> strip z ! 2 \<noteq> CHR ''-''
         \<or> \<not> is_alpha (strip z ! 0) \<or> \<not> is_alpha (strip z ! 1)
        \<longrightarrow> clean_postal_code z = strip z)"
proof -
  have e1: "clean_postal_code ''DK-5220'' = ''5220''"
    by (simp add: clean_postal_code_def strip_def is_space_def isalpha_def is_alpha_def)
  have e2: "clean_postal_code ''  43133  '' = ''43133''"
    by (simp add: clean_postal_code_def strip_def is_space_def isalpha_def is_alpha_def)
  have e3: "clean_postal_code ''123'' = ''123''"
    by (simp add: clean_postal_code_def strip_def is_space_def isalpha_def is_alpha_def)
  show ?thesis
    using e1 e2 e3 clean_postal_code_prefix [of z a b r] clean_postal_code_unchanged [of z]
    by blast
qed

theorem clean_postal_code_spec_witness:
  "clean_postal_code '' NO-1234 '' = ''1234''
   \<and> clean_postal_code ''S-41'' = ''S-41''
   \<and> clean_postal_code ''12-345'' = ''12-345''
   \<and> clean_postal_code ''AB-'' = ''AB-''"
  using clean_postal_code_spec [of "'' NO-1234 ''" "CHR ''N''" "CHR ''O''" "''1234''"]
        clean_postal_code_spec [of "''S-41''"]
        clean_postal_code_spec [of "''12-345''"]
        clean_postal_code_spec [of "''AB-''"]
  by (simp add: strip_def is_space_def is_alpha_def)

section \<open>The service-code grammar\<close>

lemma parse_srvid_no_colon: "CHR '':'' \<notin> set s \<Longrightarrow> parse_srvid s = Inl (InvalidSrvid s)"
  by (simp add: parse_srvid_def split_on_no_delim)

lemma parse_srvid_two:
  "CHR '':'' \<notin> set c \<Longrightarrow> CHR '':'' \<notin> set p \<Longrightarrow>
   parse_srvid (c @ CHR '':'' # p) =
     (case CarrierType_of (upper (strip c)) of
        None \<Rightarrow> Inl (UnknownCarrier (upper (strip c)) (c @ CHR '':'' # p))
      | Some k \<Rightarrow> Inr (k, strip p, []))"
  by (simp add: parse_srvid_def split_on_append split_on_no_delim Let_def)

lemma parse_srvid_three:
  "CHR '':'' \<notin> set c \<Longrightarrow> CHR '':'' \<notin> set p \<Longrightarrow> CHR '':'' \<notin> set a \<Longrightarrow>
   parse_srvid (c @ CHR '':'' # p @ CHR '':'' # a) =
     (case CarrierType_of (upper (strip c)) of
        None \<Rightarrow> Inl (UnknownCarrier (upper (strip c)) (c @ CHR '':'' # p @ CHR '':'' # a))
      | Some k \<Rightarrow> Inr (k, strip p, strip a))"
  by (simp add: parse_srvid_def split_on_append split_on_no_delim Let_def)

lemma parse_srvid_more:
  "CHR '':'' \<notin> set c \<Longrightarrow> CHR '':'' \<notin> set p \<Longrightarrow> CHR '':'' \<notin> set a \<Longrightarrow>
   parse_srvid (c @ CHR '':'' # p @ CHR '':'' # a @ CHR '':'' # rest) =
     (case CarrierType_of (upper (strip c)) of
        None \<Rightarrow> Inl (UnknownCarrier (upper (strip c))
                   (c @ CHR '':'' # p @ CHR '':'' # a @ CHR '':'' # rest))
      | Some k \<Rightarrow> Inr (k, strip p, strip a))"
  by (simp add: parse_srvid_def split_on_append split_on_no_delim split_on_nonempty Let_def)

lemma CarrierType_of_iff: "CarrierType_of v = Some k \<longleftrightarrow> v = carrier_value k"
  by (cases k) (auto simp: CarrierType_of_def)

text \<open>
  C7. The service code is split on the colon. \<open>DHL:104:AVIS\<close> parses to DHL, product
  \<open>104\<close>, addon \<open>AVIS\<close>, and \<open>PN:19\<close> to the second carrier, product \<open>19\<close> and no
  addon. A code has fewer than two segments exactly when it has no colon, and then it
  fails as an invalid service code. With a carrier segment \<open>c\<close>, a product segment
  \<open>p\<close> and an optional addon segment \<open>a\<close> (later segments are ignored), the code
  fails as an unknown carrier when the trimmed, upper-cased \<open>c\<close> is not the value of a
  carrier, and otherwise yields that carrier with the trimmed product and addon. The
  carrier found does not depend on the case of \<open>c\<close>, and the carrier values are
  \<open>DHL\<close> and \<open>PN\<close>.
\<close>

theorem parse_srvid_grammar:
  "parse_srvid ''DHL:104:AVIS'' = Inr (DHL, ''104'', ''AVIS'')
   \<and> parse_srvid ''PN:19'' = Inr (POSTNORD, ''19'', [])
   \<and> (length (split_on (CHR '':'') s) < 2 \<longleftrightarrow> CHR '':'' \<notin> set s)
   \<and> (CHR '':'' \<notin> set s \<longrightarrow> parse_srvid s = Inl (InvalidSrvid s))
   \<and> (CHR '':'' \<notin> set c \<and> CHR '':'' \<notin> set p \<longrightarrow>
        parse_srvid (c @ CHR '':'' # p) =
          (case CarrierType_of (upper (strip c)) of
             None \<Rightarrow> Inl (UnknownCarrier (upper (strip c)) (c @ CHR '':'' # p))
           | Some k \<Rightarrow> Inr (k, strip p, [])))
   \<and> (CHR '':'' \<notin> set c \<and> CHR '':'' \<notin> set p \<and> CHR '':'' \<notin> set a \<longrightarrow>
        parse_srvid (c @ CHR '':'' # p @ CHR '':'' # a) =
          (case CarrierType_of (upper (strip c)) of
             None \<Rightarrow> Inl (UnknownCarrier (upper (strip c)) (c @ CHR '':'' # p @ CHR '':'' # a))
           | Some k \<Rightarrow> Inr (k, strip p, strip a))
        \<and> parse_srvid (c @ CHR '':'' # p @ CHR '':'' # a @ CHR '':'' # rest) =
          (case CarrierType_of (upper (strip c)) of
             None \<Rightarrow> Inl (UnknownCarrier (upper (strip c))
                        (c @ CHR '':'' # p @ CHR '':'' # a @ CHR '':'' # rest))
           | Some k \<Rightarrow> Inr (k, strip p, strip a)))
   \<and> CarrierType_of (upper (strip (map lower_char c))) = CarrierType_of (upper (strip c))
   \<and> (CarrierType_of v = Some k' \<longleftrightarrow> v = carrier_value k')"
proof -
  have e1: "parse_srvid ''DHL:104:AVIS'' = Inr (DHL, ''104'', ''AVIS'')"
    by (simp add: parse_srvid_def strip_def is_space_def upper_def upper_char_def
        CarrierType_of_def)
  have e2: "parse_srvid ''PN:19'' = Inr (POSTNORD, ''19'', [])"
    by (simp add: parse_srvid_def strip_def is_space_def upper_def upper_char_def
        CarrierType_of_def)
  show ?thesis
    using e1 e2 split_on_single_iff [of "CHR '':''" s] parse_srvid_no_colon [of s]
      parse_srvid_two [of c p] parse_srvid_three [of c p a] parse_srvid_more [of c p a rest]
      upper_strip_lower [of c] CarrierType_of_iff [of v k']
    by simp
qed

theorem parse_srvid_grammar_witness:
  "parse_srvid ''INVALID'' = Inl (InvalidSrvid ''INVALID'')
   \<and> parse_srvid ''ups:100'' = Inl (UnknownCarrier ''UPS'' ''ups:100'')
   \<and> parse_srvid '' dhl :104 : AVIS '' = Inr (DHL, ''104'', ''AVIS'')
   \<and> parse_srvid ''pn:17:A:B'' = Inr (POSTNORD, ''17'', ''A'')"
  using parse_srvid_grammar [of "''INVALID''" "''ups''" "''100''"]
        parse_srvid_grammar [of "[]" "'' dhl ''" "''104 ''" "'' AVIS ''"]
        parse_srvid_grammar [of "[]" "''pn''" "''17''" "''A''" "''B''"]
  by (simp add: strip_def is_space_def upper_def upper_char_def CarrierType_of_def)

section \<open>The DHL payload\<close>

lemma build_transport_instruction_total:
  assumes "service sh = Some svc" "receiver sh = Some r"
  shows "\<exists>p. build_transport_instruction self today sh = Inr p"
  using assms by (simp add: build_transport_instruction_def Let_def)

lemma bti_shippingDate:
  assumes "build_transport_instruction self today sh = Inr p" "service sh = Some svc"
  shows "shippingDate p =
    (case booking svc of
       Some b \<Rightarrow> if pickup_date b \<noteq> [] then pickup_date b else today
     | None \<Rightarrow> today)"
  using assms
  by (auto simp add: build_transport_instruction_def Let_def split: option.splits)


lemma package_type_default:
  "dict_get (map_of PACKAGE_TYPE_DEFAULTS) pc ''PKT'' = (if pc = ''210'' then ''701'' else ''PKT'')"
  by (simp add: dict_get_def PACKAGE_TYPE_DEFAULTS_def)

lemma bti_packageType_table:
  assumes "build_transport_instruction self today sh = Inr p" "service sh = Some svc"
  shows "map packageType (pieces p) =
      [case containers sh of
         [] \<Rightarrow> dict_get (map_of PACKAGE_TYPE_DEFAULTS) (product_code svc) ''PKT''
       | c # _ \<Rightarrow> if package_code c \<noteq> [] then package_code c
                  else dict_get (map_of PACKAGE_TYPE_DEFAULTS) (product_code svc) ''PKT'']"
  using assms
  by (auto simp add: build_transport_instruction_def Let_def split: option.splits list.splits)

lemma bti_packageType:
  assumes "build_transport_instruction self today sh = Inr p" "service sh = Some svc"
  shows "map packageType (pieces p) =
      [case containers sh of
         [] \<Rightarrow> if product_code svc = ''210'' then ''701'' else ''PKT''
       | c # _ \<Rightarrow> if package_code c \<noteq> [] then package_code c
                  else if product_code svc = ''210'' then ''701'' else ''PKT'']"
  unfolding bti_packageType_table [OF assms] package_type_default ..

text \<open>
  C3, as the code has it. With a service and a receiver the payload is built, and its
  shippingDate is the pick-up date of the service's booking record whenever there is
  such a record and its date is not empty, and today's date otherwise. The pick-up
  flag of the record plays no part: the same shipment with the flag set to any value
  gets the same shippingDate.
\<close>

theorem shipping_date_rule:
  assumes "service sh = Some svc" and "receiver sh = Some r"
  shows "\<exists>p. build_transport_instruction self today sh = Inr p
     \<and> shippingDate p =
         (case booking svc of
            Some b \<Rightarrow> if pickup_date b \<noteq> [] then pickup_date b else today
          | None \<Rightarrow> today)
     \<and> (\<forall>f. map_sum id shippingDate
               (build_transport_instruction self today
                  (sh\<lparr>service := Some (svc\<lparr>booking :=
                        map_option (\<lambda>b. b\<lparr>pickup_booking := f\<rparr>) (booking svc)\<rparr>)\<rparr>))
             = Inr (shippingDate p))"
proof -
  obtain p where p: "build_transport_instruction self today sh = Inr p"
    using build_transport_instruction_total [OF assms] by blast
  have d: "shippingDate p =
         (case booking svc of
            Some b \<Rightarrow> if pickup_date b \<noteq> [] then pickup_date b else today
          | None \<Rightarrow> today)"
    using bti_shippingDate [OF p assms(1)] .
  have "map_sum id shippingDate
               (build_transport_instruction self today
                  (sh\<lparr>service := Some (svc\<lparr>booking :=
                        map_option (\<lambda>b. b\<lparr>pickup_booking := f\<rparr>) (booking svc)\<rparr>)\<rparr>))
             = Inr (shippingDate p)" for f
  proof -
    let ?sh = "sh\<lparr>service := Some (svc\<lparr>booking :=
                        map_option (\<lambda>b. b\<lparr>pickup_booking := f\<rparr>) (booking svc)\<rparr>)\<rparr>"
    have s: "service ?sh = Some (svc\<lparr>booking :=
                        map_option (\<lambda>b. b\<lparr>pickup_booking := f\<rparr>) (booking svc)\<rparr>)"
      by simp
    have r: "receiver ?sh = Some r" using assms(2) by simp
    obtain q where q: "build_transport_instruction self today ?sh = Inr q"
      using build_transport_instruction_total [OF s r] by blast
    have "shippingDate q = shippingDate p"
      using bti_shippingDate [OF q s] d by (cases "booking svc") simp_all
    then show ?thesis using q by simp
  qed
  then show ?thesis using p d by blast
qed

theorem shipping_date_rule_witness:
  "map_sum id shippingDate
     (build_transport_instruction example_config ''2026-01-01''
        (example_shipment DHL ''102''
           (Some \<lparr>pickup_booking = True, pickup_date = ''2026-02-19''\<rparr>) []))
     = Inr ''2026-02-19''
   \<and> map_sum id shippingDate
     (build_transport_instruction example_config ''2026-01-01''
        (example_shipment DHL ''102'' None []))
     = Inr ''2026-01-01''"
proof -
  let ?b = "\<lparr>pickup_booking = True, pickup_date = ''2026-02-19''\<rparr>"
  let ?svc = "\<lambda>b. \<lparr>carrier = DHL, product_code = ''102'', addon = [],
        raw_srvid = ''DHL:102'', booking = b\<rparr>"
  have s1: "service (example_shipment DHL ''102'' (Some ?b) []) = Some (?svc (Some ?b))"
    and r1: "receiver (example_shipment DHL ''102'' (Some ?b) []) = Some example_receiver"
    and s2: "service (example_shipment DHL ''102'' None []) = Some (?svc None)"
    and r2: "receiver (example_shipment DHL ''102'' None []) = Some example_receiver"
    by (simp_all add: example_shipment_def)
  obtain p where p: "build_transport_instruction example_config ''2026-01-01''
        (example_shipment DHL ''102'' (Some ?b) []) = Inr p"
    and dp: "shippingDate p =
         (case booking (?svc (Some ?b)) of
            Some b \<Rightarrow> if pickup_date b \<noteq> [] then pickup_date b else ''2026-01-01''
          | None \<Rightarrow> ''2026-01-01'')"
    using shipping_date_rule [OF s1 r1, of example_config "''2026-01-01''"] by blast
  obtain q where q: "build_transport_instruction example_config ''2026-01-01''
        (example_shipment DHL ''102'' None []) = Inr q"
    and dq: "shippingDate q =
         (case booking (?svc None) of
            Some b \<Rightarrow> if pickup_date b \<noteq> [] then pickup_date b else ''2026-01-01''
          | None \<Rightarrow> ''2026-01-01'')"
    using shipping_date_rule [OF s2 r2, of example_config "''2026-01-01''"] by blast
  show ?thesis using p dp q dq by simp
qed

text \<open>
  The claim as written fails: a booking record with a date whose pick-up flag is not
  set (the export says \<open>NO\<close>) still gives its date to the payload, where the rule of
  the specification gives today's date.
\<close>

theorem shipping_date_unrequested_counterexample:
  "map_sum id shippingDate
     (build_transport_instruction example_config ''2026-01-01''
        (example_shipment DHL ''102''
           (Some \<lparr>pickup_booking = False, pickup_date = ''2026-02-19''\<rparr>) []))
     = Inr ''2026-02-19''
   \<and> spec_shipping_date (Some \<lparr>pickup_booking = False, pickup_date = ''2026-02-19''\<rparr>)
        ''2026-01-01'' = ''2026-01-01''"
  by (simp add: build_transport_instruction_def example_shipment_def example_receiver_def
      spec_shipping_date_def Let_def)

section \<open>Weights, volumes and package types\<close>








section \<open>Containers from the export\<close>

lemma vals_get_absent: "k \<notin> fst ` set vals \<Longrightarrow> vals_get vals k d = d"
proof -
  assume "k \<notin> fst ` set vals"
  then have "map_of (rev vals) k = None"
    by (simp add: map_of_eq_None_iff)
  then show ?thesis by (simp add: vals_get_def)
qed

lemma vals_get_last:
  assumes "vals = xs @ (k, t) # ys" and "k \<notin> fst ` set ys"
  shows "vals_get vals k d = t"
proof -
  have "map_of (rev ys) k = None"
    using assms(2) by (simp add: map_of_eq_None_iff)
  then have "map_of (rev vals) k = Some t"
    using assms(1) by (simp add: map_add_def)
  then show ?thesis by (simp add: vals_get_def)
qed

lemma parse_container_package_code:
  "parse_container to_float e = Inr c
   \<Longrightarrow> package_code c = vals_get (extract_vals e) ''packagecode'' ''PC''"
  by (auto simp add: parse_container_def Let_def split: option.splits sum.splits)

lemma parse_container_omitted:
  assumes "parse_container to_float e = Inr c"
    and "\<forall>v\<in>set (findall ''val'' e). attr_get v ''n'' [] \<noteq> ''packagecode''"
  shows "package_code c = ''PC''"
proof -
  have "''packagecode'' \<notin> fst ` set (extract_vals e)"
    using assms(2) by (auto simp add: extract_vals_def)
  then show ?thesis
    using parse_container_package_code [OF assms(1)] by (simp add: vals_get_absent)
qed

lemma parse_container_present:
  assumes "parse_container to_float e = Inr c"
    and "findall ''val'' e = vs @ v # ws"
    and "attr_get v ''n'' [] = ''packagecode''"
    and "\<forall>w\<in>set ws. attr_get w ''n'' [] \<noteq> ''packagecode''"
  shows "package_code c = strip (case text_of v of None \<Rightarrow> [] | Some t \<Rightarrow> t)"
proof -
  let ?f = "\<lambda>v. (attr_get v ''n'' [], strip (case text_of v of None \<Rightarrow> [] | Some t \<Rightarrow> t))"
  have e: "extract_vals e = map ?f vs @ (''packagecode'', snd (?f v)) # map ?f ws"
    using assms(2,3) by (simp add: extract_vals_def)
  have n: "''packagecode'' \<notin> fst ` set (map ?f ws)"
    using assms(4) by auto
  show ?thesis
    using parse_container_package_code [OF assms(1)] vals_get_last [OF e n] by simp
qed

text \<open>
  C9, as the code has it. A container produced by the parser has the package code
  \<open>PC\<close> when the export omits the \<open>packagecode\<close> field, and otherwise the trimmed
  text of the last \<open>packagecode\<close> field, which is empty when the field is blank. The
  DHL payload built for a shipment whose first container is the parsed one carries the
  container's code when it is not empty, and otherwise the default of the product code
  (\<open>701\<close> for product \<open>210\<close>) or the generic \<open>PKT\<close>.
\<close>

theorem parsed_container_package_type:
  assumes "parse_container to_float e = Inr c"
  shows "((\<forall>v\<in>set (findall ''val'' e). attr_get v ''n'' [] \<noteq> ''packagecode'')
            \<longrightarrow> package_code c = ''PC'')
     \<and> (\<forall>vs v ws. findall ''val'' e = vs @ v # ws
            \<and> attr_get v ''n'' [] = ''packagecode''
            \<and> (\<forall>w\<in>set ws. attr_get w ''n'' [] \<noteq> ''packagecode'')
          \<longrightarrow> package_code c = strip (case text_of v of None \<Rightarrow> [] | Some t \<Rightarrow> t))
     \<and> (\<forall>(sh::Shipment) (svc::ServiceInfo) (r::Receiver) self today. containers sh = c # cs
            \<and> service sh = Some svc \<and> receiver sh = Some r
          \<longrightarrow> (\<exists>p. build_transport_instruction self today sh = Inr p
                \<and> map packageType (pieces p) =
                    [if package_code c \<noteq> [] then package_code c
                     else if product_code svc = ''210'' then ''701'' else ''PKT'']))"
proof (intro conjI allI impI)
  assume "\<forall>v\<in>set (findall ''val'' e). attr_get v ''n'' [] \<noteq> ''packagecode''"
  then show "package_code c = ''PC''"
    using parse_container_omitted [OF assms] by simp
next
  fix vs v ws
  assume "findall ''val'' e = vs @ v # ws
            \<and> attr_get v ''n'' [] = ''packagecode''
            \<and> (\<forall>w\<in>set ws. attr_get w ''n'' [] \<noteq> ''packagecode'')"
  then show "package_code c = strip (case text_of v of None \<Rightarrow> [] | Some t \<Rightarrow> t)"
    using parse_container_present [OF assms] by blast
next
  fix sh :: Shipment and svc :: ServiceInfo and r :: Receiver and self today
  assume a: "containers sh = c # cs \<and> service sh = Some svc \<and> receiver sh = Some r"
  then obtain p where p: "build_transport_instruction self today sh = Inr p"
    using build_transport_instruction_total by blast
  have pt: "map packageType (pieces p) =
                    [if package_code c \<noteq> [] then package_code c
                     else if product_code svc = ''210'' then ''701'' else ''PKT'']"
    using bti_packageType [OF p] a by simp
  show "\<exists>p. build_transport_instruction self today sh = Inr p
                \<and> map packageType (pieces p) =
                    [if package_code c \<noteq> [] then package_code c
                     else if product_code svc = ''210'' then ''701'' else ''PKT'']"
    by (rule exI [of _ p]) (intro conjI p pt)
qed

lemma parse_omitted_packagecode:
  "parse_container digits_float omitted_packagecode_container = Inr omitted_packagecode_parsed"
  by (simp add: parse_container_def omitted_packagecode_container_def
      omitted_packagecode_parsed_def digits_float_def is_digit_def py_int_def
      extract_vals_def findall_def vals_get_def attr_get_def strip_def is_space_def Let_def)

lemma parse_blank_packagecode:
  "parse_container digits_float blank_packagecode_container = Inr blank_packagecode_parsed"
  by (simp add: parse_container_def blank_packagecode_container_def
      blank_packagecode_parsed_def digits_float_def is_digit_def py_int_def
      extract_vals_def findall_def vals_get_def attr_get_def strip_def is_space_def Let_def)

theorem parsed_container_package_type_witness:
  "parse_container digits_float omitted_packagecode_container = Inr omitted_packagecode_parsed
   \<and> package_code omitted_packagecode_parsed = ''PC''
   \<and> map_sum id (map packageType \<circ> pieces)
       (build_transport_instruction example_config ''2026-01-01''
          (example_shipment DHL ''210'' None [omitted_packagecode_parsed])) = Inr [''PC'']"
proof -
  let ?svc = "\<lparr>carrier = DHL, product_code = ''210'', addon = [],
        raw_srvid = ''DHL:210'', booking = None\<rparr>"
  let ?sh = "example_shipment DHL ''210'' None [omitted_packagecode_parsed]"
  note t = parsed_container_package_type [OF parse_omitted_packagecode, of "[]"]
  have o: "\<forall>v\<in>set (findall ''val'' omitted_packagecode_container).
      attr_get v ''n'' [] \<noteq> ''packagecode''"
    by (simp add: omitted_packagecode_container_def findall_def attr_get_def)
  have pc: "package_code omitted_packagecode_parsed = ''PC''"
    by (rule t [THEN conjunct1, THEN mp, OF o])
  have h: "containers ?sh = omitted_packagecode_parsed # []
      \<and> service ?sh = Some ?svc \<and> receiver ?sh = Some example_receiver"
    by (simp add: example_shipment_def)
  from t [THEN conjunct2, THEN conjunct2, rule_format, OF h,
      of example_config "''2026-01-01''"]
  obtain p where p: "build_transport_instruction example_config ''2026-01-01'' ?sh = Inr p
      \<and> map packageType (pieces p) =
          [if package_code omitted_packagecode_parsed \<noteq> []
           then package_code omitted_packagecode_parsed
           else if product_code ?svc = ''210'' then ''701'' else ''PKT'']" ..
  show ?thesis
    using parse_omitted_packagecode pc p by simp
qed

text \<open>
  The claim as written fails: a \<open>packagecode\<close> field that is present and blank (the
  export pads its values) gives a container with an empty package code, and the
  payload of a shipment of product \<open>210\<close> with that container takes \<open>701\<close> from the
  table of defaults.
\<close>

theorem parsed_package_code_empty_counterexample:
  "parse_container digits_float blank_packagecode_container = Inr blank_packagecode_parsed
   \<and> package_code blank_packagecode_parsed = []
   \<and> map_sum id (map packageType \<circ> pieces)
       (build_transport_instruction example_config ''2026-01-01''
          (example_shipment DHL ''210'' None [blank_packagecode_parsed])) = Inr [''701'']"
proof -
  have "map_sum id (map packageType \<circ> pieces)
       (build_transport_instruction example_config ''2026-01-01''
          (example_shipment DHL ''210'' None [blank_packagecode_parsed])) = Inr [''701'']"
    by (simp add: build_transport_instruction_def example_shipment_def example_receiver_def
        blank_packagecode_parsed_def dict_get_def PACKAGE_TYPE_DEFAULTS_def Let_def)
  then show ?thesis
    using parse_blank_packagecode by (simp add: blank_packagecode_parsed_def)
qed

section \<open>Label extraction\<close>

lemma find_label_first:
  "list_all other_report pre \<Longrightarrow> obj_get kvs ''type'' = Some (JStr ''Label'')
   \<Longrightarrow> find_label (pre @ JObj kvs # post) = Inr (Some (JObj kvs))"
proof (induction pre)
  case Nil
  then show ?case by simp
next
  case (Cons r pre)
  then show ?case by (cases r) simp_all
qed

lemma find_label_none: "list_all other_report rs \<Longrightarrow> find_label rs = Inr None"
proof (induction rs)
  case Nil
  then show ?case by simp
next
  case (Cons r rs)
  then show ?case by (cases r) simp_all
qed

lemma extract_label_binary:
  "contains ''application/pdf'' (header_content_type resp)
     \<or> contains ''application/octet-stream'' (header_content_type resp)
   \<Longrightarrow> extract_label_from_response b64 resp ep = Inr (resp_content resp)"
  by (simp add: extract_label_from_response_def)

lemma extract_label_json:
  assumes "\<not> contains ''application/pdf'' (header_content_type resp)"
    and "\<not> contains ''application/octet-stream'' (header_content_type resp)"
    and "contains ''json'' (header_content_type resp)"
    and "resp_json resp = Some (JObj body)"
    and "obj_get body ''reports'' = Some (JArr rs)"
  shows "extract_label_from_response b64 resp ep =
     (if rs = [] then Inl (NoReportsError ep (take 200 (resp_text resp)))
      else case find_label rs of
             Inl e \<Rightarrow> Inl e
           | Inr (Some r) \<Rightarrow> decode_report b64 ep r
           | Inr None \<Rightarrow> decode_report b64 ep (hd rs))"
  using assms by (simp add: extract_label_from_response_def)

lemma extract_label_no_reports_key:
  assumes "\<not> contains ''application/pdf'' (header_content_type resp)"
    and "\<not> contains ''application/octet-stream'' (header_content_type resp)"
    and "contains ''json'' (header_content_type resp)"
    and "resp_json resp = Some (JObj body)"
    and "obj_get body ''reports'' = None"
  shows "extract_label_from_response b64 resp ep =
     Inl (NoReportsError ep (take 200 (resp_text resp)))"
  using assms by (simp add: extract_label_from_response_def)

lemma decode_report_content:
  "obj_get kvs ''content'' = Some (JStr s) \<Longrightarrow> s \<noteq> [] \<Longrightarrow> b64 s = Some d
   \<Longrightarrow> decode_report b64 ep (JObj kvs) = Inr d"
  by (simp add: decode_report_def)

lemma decode_report_empty:
  "obj_get kvs ''content'' = None \<or> obj_get kvs ''content'' = Some (JStr [])
   \<Longrightarrow> decode_report b64 ep (JObj kvs) = Inl (EmptyContentError ep)"
  by (auto simp add: decode_report_def)

text \<open>
  C6, as the code has it. A response whose Content-Type contains \<open>application/pdf\<close>
  or \<open>application/octet-stream\<close> yields its body as it is. Otherwise, when the
  Content-Type contains \<open>json\<close> in lower case and the decoded body is an object:
  with an empty \<open>reports\<close> list, or none, the extraction fails with the error that
  carries the first 200 characters of the response text; with reports, the outcome is
  that of decoding the first report whose type is \<open>Label\<close>, and the first report
  when no report has that type. Decoding the chosen report returns the base64-decoded
  content when the content is a non-empty string that decodes, and fails when the
  content is missing or empty: no other report is tried. A response with any other
  Content-Type yields its body as it is, whatever the body holds.
\<close>

theorem extract_label_selection:
  "(contains ''application/pdf'' (header_content_type resp)
      \<or> contains ''application/octet-stream'' (header_content_type resp)
     \<longrightarrow> extract_label_from_response b64 resp ep = Inr (resp_content resp))
   \<and> (\<not> contains ''application/pdf'' (header_content_type resp)
      \<and> \<not> contains ''application/octet-stream'' (header_content_type resp)
      \<and> contains ''json'' (header_content_type resp)
      \<and> resp_json resp = Some (JObj body)
     \<longrightarrow>
       (obj_get body ''reports'' = None \<or> obj_get body ''reports'' = Some (JArr [])
         \<longrightarrow> extract_label_from_response b64 resp ep
              = Inl (NoReportsError ep (take 200 (resp_text resp))))
       \<and> (obj_get body ''reports'' = Some (JArr (pre @ JObj kvs # post))
           \<and> list_all other_report pre \<and> obj_get kvs ''type'' = Some (JStr ''Label'')
         \<longrightarrow> extract_label_from_response b64 resp ep = decode_report b64 ep (JObj kvs))
       \<and> (obj_get body ''reports'' = Some (JArr (r # rest))
           \<and> list_all other_report (r # rest)
         \<longrightarrow> extract_label_from_response b64 resp ep = decode_report b64 ep r))
   \<and> (obj_get kvs ''content'' = Some (JStr s) \<and> s \<noteq> [] \<and> b64 s = Some d
        \<longrightarrow> decode_report b64 ep (JObj kvs) = Inr d)
   \<and> (obj_get kvs ''content'' = None \<or> obj_get kvs ''content'' = Some (JStr [])
        \<longrightarrow> decode_report b64 ep (JObj kvs) = Inl (EmptyContentError ep))
   \<and> (\<not> contains ''application/pdf'' (header_content_type resp)
      \<and> \<not> contains ''application/octet-stream'' (header_content_type resp)
      \<and> \<not> contains ''json'' (header_content_type resp)
     \<longrightarrow> extract_label_from_response b64 resp ep = Inr (resp_content resp))"
proof (intro conjI impI)
  assume "contains ''application/pdf'' (header_content_type resp)
      \<or> contains ''application/octet-stream'' (header_content_type resp)"
  then show "extract_label_from_response b64 resp ep = Inr (resp_content resp)"
    by (rule extract_label_binary)
next
  assume j: "\<not> contains ''application/pdf'' (header_content_type resp)
      \<and> \<not> contains ''application/octet-stream'' (header_content_type resp)
      \<and> contains ''json'' (header_content_type resp)
      \<and> resp_json resp = Some (JObj body)"
  assume "obj_get body ''reports'' = None \<or> obj_get body ''reports'' = Some (JArr [])"
  then show "extract_label_from_response b64 resp ep
              = Inl (NoReportsError ep (take 200 (resp_text resp)))"
  proof
    assume "obj_get body ''reports'' = None"
    then show ?thesis using j extract_label_no_reports_key by blast
  next
    assume "obj_get body ''reports'' = Some (JArr [])"
    then show ?thesis using j extract_label_json [of resp body "[]" b64 ep] by simp
  qed
next
  assume j: "\<not> contains ''application/pdf'' (header_content_type resp)
      \<and> \<not> contains ''application/octet-stream'' (header_content_type resp)
      \<and> contains ''json'' (header_content_type resp)
      \<and> resp_json resp = Some (JObj body)"
  assume l: "obj_get body ''reports'' = Some (JArr (pre @ JObj kvs # post))
           \<and> list_all other_report pre \<and> obj_get kvs ''type'' = Some (JStr ''Label'')"
  then have "find_label (pre @ JObj kvs # post) = Inr (Some (JObj kvs))"
    using find_label_first by blast
  then show "extract_label_from_response b64 resp ep = decode_report b64 ep (JObj kvs)"
    using j l extract_label_json [of resp body "pre @ JObj kvs # post" b64 ep] by simp
next
  assume j: "\<not> contains ''application/pdf'' (header_content_type resp)
      \<and> \<not> contains ''application/octet-stream'' (header_content_type resp)
      \<and> contains ''json'' (header_content_type resp)
      \<and> resp_json resp = Some (JObj body)"
  assume l: "obj_get body ''reports'' = Some (JArr (r # rest))
           \<and> list_all other_report (r # rest)"
  then have "find_label (r # rest) = Inr None"
    using find_label_none by blast
  then show "extract_label_from_response b64 resp ep = decode_report b64 ep r"
    using j l extract_label_json [of resp body "r # rest" b64 ep] by simp
next
  assume "obj_get kvs ''content'' = Some (JStr s) \<and> s \<noteq> [] \<and> b64 s = Some d"
  then show "decode_report b64 ep (JObj kvs) = Inr d"
    using decode_report_content by blast
next
  assume "obj_get kvs ''content'' = None \<or> obj_get kvs ''content'' = Some (JStr [])"
  then show "decode_report b64 ep (JObj kvs) = Inl (EmptyContentError ep)"
    by (rule decode_report_empty)
next
  assume "\<not> contains ''application/pdf'' (header_content_type resp)
      \<and> \<not> contains ''application/octet-stream'' (header_content_type resp)
      \<and> \<not> contains ''json'' (header_content_type resp)"
  then show "extract_label_from_response b64 resp ep = Inr (resp_content resp)"
    by (simp add: extract_label_from_response_def)
qed

theorem extract_label_selection_witness:
  "extract_label_from_response example_b64 pdf_response ''printdocuments''
     = Inr ''%PDF-1.6 binary content''
   \<and> extract_label_from_response example_b64 (json_response []) ''printdocuments''
     = Inl (NoReportsError ''printdocuments'' ''{...}'')
   \<and> extract_label_from_response example_b64 (json_response [list_report, label_report])
       ''printdocuments'' = Inr ''LABEL PDF''
   \<and> extract_label_from_response example_b64 (json_response [list_report])
       ''printdocuments'' = Inr ''LIST PDF''"
proof -
  have ct: "header_content_type pdf_response = ''application/pdf''"
    "header_content_type (json_response rs) = ''application/json''" for rs
    by (simp_all add: header_content_type_def pdf_response_def json_response_def)
  have j: "\<not> contains ''application/pdf'' (header_content_type (json_response rs))
      \<and> \<not> contains ''application/octet-stream'' (header_content_type (json_response rs))
      \<and> contains ''json'' (header_content_type (json_response rs))
      \<and> resp_json (json_response rs) = Some (JObj [(''reports'', JArr rs)])" for rs
    by (simp add: ct) (simp add: json_response_def)
  have g: "obj_get [(''reports'', JArr rs)] ''reports'' = Some (JArr rs)" for rs
    by (simp add: obj_get_def)
  have lab: "obj_get [(''name'', JStr ''label.pdf''), (''content'', JStr ''TEFCRUwgUERG''),
                        (''contentType'', JStr ''application/pdf''), (''type'', JStr ''Label''),
                        (''valid'', JBool True)] ''type'' = Some (JStr ''Label'')"
    and labc: "obj_get [(''name'', JStr ''label.pdf''), (''content'', JStr ''TEFCRUwgUERG''),
                        (''contentType'', JStr ''application/pdf''), (''type'', JStr ''Label''),
                        (''valid'', JBool True)] ''content'' = Some (JStr ''TEFCRUwgUERG'')"
    and lstc: "obj_get [(''name'', JStr ''shipmentlist.pdf''), (''content'', JStr ''TElTVCBQREY=''),
                       (''contentType'', JStr ''application/pdf''), (''type'', JStr ''ShipmentList''),
                       (''valid'', JBool True)] ''content'' = Some (JStr ''TElTVCBQREY='')"
    by (simp_all add: obj_get_def)
  have oth: "list_all other_report [list_report]"
    by (simp add: list_report_def obj_get_def)
  have d1: "example_b64 ''TEFCRUwgUERG'' = Some ''LABEL PDF''"
    and d2: "example_b64 ''TElTVCBQREY='' = Some ''LIST PDF''"
    by (simp_all add: example_b64_def)
  have a: "extract_label_from_response example_b64 pdf_response ''printdocuments''
     = Inr ''%PDF-1.6 binary content''"
    using extract_label_selection [of pdf_response example_b64 "''printdocuments''"]
    by (simp add: ct) (simp add: pdf_response_def)
  have b: "extract_label_from_response example_b64 (json_response []) ''printdocuments''
     = Inl (NoReportsError ''printdocuments'' ''{...}'')"
    using extract_label_selection [of "json_response []" example_b64 "''printdocuments''"
        "[(''reports'', JArr [])]"] j [of "[]"] g [of "[]"]
    by (simp add: json_response_def)
  have c: "extract_label_from_response example_b64 (json_response [list_report, label_report])
       ''printdocuments'' = Inr ''LABEL PDF''"
    using extract_label_selection [of "json_response [list_report, label_report]"
        example_b64 "''printdocuments''" "[(''reports'', JArr [list_report, label_report])]"
        "[list_report]"
        "[(''name'', JStr ''label.pdf''), (''content'', JStr ''TEFCRUwgUERG''),
                        (''contentType'', JStr ''application/pdf''), (''type'', JStr ''Label''),
                        (''valid'', JBool True)]" "[]" _ _ "''TEFCRUwgUERG''" "''LABEL PDF''"]
      j [of "[list_report, label_report]"] g [of "[list_report, label_report]"]
      lab labc oth d1
    by (simp add: label_report_def)
  have d: "extract_label_from_response example_b64 (json_response [list_report])
       ''printdocuments'' = Inr ''LIST PDF''"
    using extract_label_selection [of "json_response [list_report]"
        example_b64 "''printdocuments''" "[(''reports'', JArr [list_report])]"
        _ "[(''name'', JStr ''shipmentlist.pdf''), (''content'', JStr ''TElTVCBQREY=''),
                       (''contentType'', JStr ''application/pdf''), (''type'', JStr ''ShipmentList''),
                       (''valid'', JBool True)]" _ list_report "[]" "''TElTVCBQREY=''" "''LIST PDF''"]
      j [of "[list_report]"] g [of "[list_report]"] lstc oth d2
    by (simp add: list_report_def)
  show ?thesis using a b c d by simp
qed

text \<open>
  The claim as written fails in two places. A JSON response whose \<open>reports\<close> list is
  not empty and whose report of type \<open>Label\<close> has an empty content does not return
  a decoded content: the extraction fails, and the other report, which has a content,
  is not used. And a response with an empty \<open>reports\<close> list whose Content-Type is
  written \<open>Application/JSON\<close> does not fail: its body is returned.
\<close>

theorem extract_label_empty_content_counterexample:
  "extract_label_from_response example_b64 (json_response [list_report, empty_label_report])
     ''printdocuments'' = Inl (EmptyContentError ''printdocuments'')
   \<and> extract_label_from_response example_b64
       ((json_response []) \<lparr>content_type := Some ''Application/JSON''\<rparr>)
     ''printdocuments'' = Inr ''{...}''"
  by (simp add: extract_label_from_response_def header_content_type_def json_response_def
      list_report_def empty_label_report_def obj_get_def decode_report_def)

section \<open>Retrieval of the label\<close>

lemma get_label_cached:
  assumes "ti_cache self sid = Some ti" "truthy ti" "print_documents post b64 self ti = Inr d"
  shows "get_label post b64 self sid = Inr d"
  using assms by (simp add: get_label_def Let_def)

lemma get_label_fallback:
  assumes "ti_cache self sid = None
     \<or> (\<exists>ti. ti_cache self sid = Some ti
            \<and> (\<not> truthy ti \<or> (\<exists>e. print_documents post b64 self ti = Inl e)))"
  shows "get_label post b64 self sid =
     (case print_documents_by_id post b64 self sid of
        Inr d \<Rightarrow> Inr d
      | Inl e \<Rightarrow> Inl (LabelUnavailableError sid))"
  using assms by (auto simp add: get_label_def Let_def)

lemma print_documents_request:
  "print_documents post b64 self ti =
     (case post (base_url self @ ''/printapi/v1/print/printdocuments'')
             (JObj [(''shipment'', ti), (''options'', JObj [(''label'', JBool True)])]) of
        Inl e \<Rightarrow> Inl e
      | Inr resp \<Rightarrow>
          if 400 \<le> status_code resp \<and> status_code resp < 600
          then Inl (HTTPError (status_code resp))
          else extract_label_from_response b64 resp ''printdocuments'')"
  by (simp add: print_documents_def print_documents_path_def raise_for_status_def
      split: sum.splits)

lemma print_documents_by_id_request:
  "print_documents_by_id post b64 self sid =
     (case post (base_url self @ ''/printapi/v1/print/printdocumentsbyid'')
             (JObj [(''transportInstructionId'', JStr sid),
                    (''options'', JObj [(''label'', JBool True)])]) of
        Inl e \<Rightarrow> Inl e
      | Inr resp \<Rightarrow>
          if 400 \<le> status_code resp \<and> status_code resp < 600
          then Inl (HTTPError (status_code resp))
          else extract_label_from_response b64 resp ''printdocumentsbyid'')"
  by (simp add: print_documents_by_id_def print_by_id_path_def raise_for_status_def
      split: sum.splits)

lemma get_all_documents_no_cache:
  assumes "ti_cache self sid = None \<or> (\<exists>ti. ti_cache self sid = Some ti \<and> \<not> truthy ti)"
  shows "get_all_documents post b64 self sid = Inl (NoCachedTIError sid)"
  using assms by (auto simp add: get_all_documents_def)

lemma get_all_documents_label_fails:
  assumes "ti_cache self sid = Some ti" "truthy ti" "print_documents post b64 self ti = Inl e"
  shows "get_all_documents post b64 self sid = Inl e"
  using assms by (simp add: get_all_documents_def)

lemma get_all_documents_label:
  assumes "ti_cache self sid = Some ti" "truthy ti" "print_documents post b64 self ti = Inr d"
  shows "\<exists>sl. get_all_documents post b64 self sid = Inr (d, sl)"
  using assms by (simp add: get_all_documents_def Let_def)

text \<open>
  C2, as the code has it. \<open>get_label\<close> has the two tiers: a cached creation response
  that is not empty is posted to the print-documents endpoint with the option
  \<open>label\<close>, and the label of that answer is returned; when there is no such cached
  response, or when that request or its extraction fails, the label is requested from
  the print-documents-by-id endpoint with the identifier and the option \<open>label\<close>, and
  when that fails too the call fails with the error that no label could be fetched.
  \<open>get_all_documents\<close>, which is what the orchestrator calls, has one tier only:
  without a cached response it fails at once, and with one it fails with the failure
  of the print-documents request for the label; it returns the label (with the
  optional shipment list) exactly when that request gives one.
\<close>

theorem label_retrieval_tiers:
  "(ti_cache self sid = Some ti \<and> truthy ti \<and> print_documents post b64 self ti = Inr d
      \<longrightarrow> get_label post b64 self sid = Inr d
          \<and> (\<exists>sl. get_all_documents post b64 self sid = Inr (d, sl)))
   \<and> (ti_cache self sid = None
        \<or> (\<exists>ti. ti_cache self sid = Some ti
               \<and> (\<not> truthy ti \<or> (\<exists>e. print_documents post b64 self ti = Inl e)))
      \<longrightarrow> get_label post b64 self sid =
            (case print_documents_by_id post b64 self sid of
               Inr d \<Rightarrow> Inr d
             | Inl e \<Rightarrow> Inl (LabelUnavailableError sid)))
   \<and> print_documents post b64 self ti =
        (case post (base_url self @ ''/printapi/v1/print/printdocuments'')
                (JObj [(''shipment'', ti), (''options'', JObj [(''label'', JBool True)])]) of
           Inl e \<Rightarrow> Inl e
         | Inr resp \<Rightarrow>
             if 400 \<le> status_code resp \<and> status_code resp < 600
             then Inl (HTTPError (status_code resp))
             else extract_label_from_response b64 resp ''printdocuments'')
   \<and> print_documents_by_id post b64 self sid =
        (case post (base_url self @ ''/printapi/v1/print/printdocumentsbyid'')
                (JObj [(''transportInstructionId'', JStr sid),
                       (''options'', JObj [(''label'', JBool True)])]) of
           Inl e \<Rightarrow> Inl e
         | Inr resp \<Rightarrow>
             if 400 \<le> status_code resp \<and> status_code resp < 600
             then Inl (HTTPError (status_code resp))
             else extract_label_from_response b64 resp ''printdocumentsbyid'')
   \<and> (ti_cache self sid = None \<or> (\<exists>ti. ti_cache self sid = Some ti \<and> \<not> truthy ti)
      \<longrightarrow> get_all_documents post b64 self sid = Inl (NoCachedTIError sid))
   \<and> (ti_cache self sid = Some ti \<and> truthy ti \<and> print_documents post b64 self ti = Inl err
      \<longrightarrow> get_all_documents post b64 self sid = Inl err)"
proof (intro conjI impI)
  assume a: "ti_cache self sid = Some ti \<and> truthy ti
      \<and> print_documents post b64 self ti = Inr d"
  then show "get_label post b64 self sid = Inr d"
    using get_label_cached by blast
  from a show "\<exists>sl. get_all_documents post b64 self sid = Inr (d, sl)"
    using get_all_documents_label by blast
next
  assume "ti_cache self sid = None
        \<or> (\<exists>ti. ti_cache self sid = Some ti
               \<and> (\<not> truthy ti \<or> (\<exists>e. print_documents post b64 self ti = Inl e)))"
  then show "get_label post b64 self sid =
            (case print_documents_by_id post b64 self sid of
               Inr d \<Rightarrow> Inr d
             | Inl e \<Rightarrow> Inl (LabelUnavailableError sid))"
    by (rule get_label_fallback)
next
  show "print_documents post b64 self ti =
        (case post (base_url self @ ''/printapi/v1/print/printdocuments'')
                (JObj [(''shipment'', ti), (''options'', JObj [(''label'', JBool True)])]) of
           Inl e \<Rightarrow> Inl e
         | Inr resp \<Rightarrow>
             if 400 \<le> status_code resp \<and> status_code resp < 600
             then Inl (HTTPError (status_code resp))
             else extract_label_from_response b64 resp ''printdocuments'')"
    by (rule print_documents_request)
next
  show "print_documents_by_id post b64 self sid =
        (case post (base_url self @ ''/printapi/v1/print/printdocumentsbyid'')
                (JObj [(''transportInstructionId'', JStr sid),
                       (''options'', JObj [(''label'', JBool True)])]) of
           Inl e \<Rightarrow> Inl e
         | Inr resp \<Rightarrow>
             if 400 \<le> status_code resp \<and> status_code resp < 600
             then Inl (HTTPError (status_code resp))
             else extract_label_from_response b64 resp ''printdocumentsbyid'')"
    by (rule print_documents_by_id_request)
next
  assume "ti_cache self sid = None \<or> (\<exists>ti. ti_cache self sid = Some ti \<and> \<not> truthy ti)"
  then show "get_all_documents post b64 self sid = Inl (NoCachedTIError sid)"
    by (rule get_all_documents_no_cache)
next
  assume "ti_cache self sid = Some ti \<and> truthy ti
      \<and> print_documents post b64 self ti = Inl err"
  then show "get_all_documents post b64 self sid = Inl err"
    using get_all_documents_label_fails by blast
qed

lemma example_label_extraction:
  "extract_label_from_response example_b64 (json_response [label_report]) ep = Inr ''LABEL PDF''"
  by (simp add: extract_label_from_response_def header_content_type_def json_response_def
      label_report_def obj_get_def decode_report_def example_b64_def)

lemma json_response_status: "status_code (json_response rs) = 200"
  by (simp add: json_response_def)

lemma print_documents_both_work:
  "print_documents both_work_post example_b64 client_with_cache (JObj [(''id'', JStr ''TI-1'')])
     = Inr ''LABEL PDF''"
  by (simp add: print_documents_request both_work_post_def example_label_extraction
      json_response_status)

lemma print_documents_refused:
  "print_documents by_id_only_post example_b64 client_with_cache (JObj [(''id'', JStr ''TI-1'')])
     = Inl (HTTPError 500)"
  by (simp add: print_documents_request by_id_only_post_def client_with_cache_def
      print_by_id_path_def)

lemma print_by_id_works:
  "print_documents_by_id by_id_only_post example_b64 client ''TI-1''
     = (if base_url client = ''https://api'' then Inr ''LABEL PDF''
        else print_documents_by_id by_id_only_post example_b64 client ''TI-1'')"
  by (simp add: print_documents_by_id_request by_id_only_post_def print_by_id_path_def
      example_label_extraction json_response_status)

theorem label_retrieval_tiers_witness:
  "get_label both_work_post example_b64 client_with_cache ''TI-1'' = Inr ''LABEL PDF''
   \<and> (\<exists>sl. get_all_documents both_work_post example_b64 client_with_cache ''TI-1''
             = Inr (''LABEL PDF'', sl))
   \<and> get_label by_id_only_post example_b64 client_with_cache ''TI-1'' = Inr ''LABEL PDF''
   \<and> get_label by_id_only_post example_b64 client_without_cache ''TI-1'' = Inr ''LABEL PDF''
   \<and> get_all_documents by_id_only_post example_b64 client_without_cache ''TI-1''
       = Inl (NoCachedTIError ''TI-1'')
   \<and> get_all_documents by_id_only_post example_b64 client_with_cache ''TI-1''
       = Inl (HTTPError 500)"
proof -
  let ?ti = "JObj [(''id'', JStr ''TI-1'')]"
  have c: "ti_cache client_with_cache ''TI-1'' = Some ?ti" "truthy ?ti"
    "ti_cache client_without_cache ''TI-1'' = None"
    by (simp_all add: client_with_cache_def client_without_cache_def)
  have b: "print_documents_by_id by_id_only_post example_b64 client_with_cache ''TI-1''
        = Inr ''LABEL PDF''"
    "print_documents_by_id by_id_only_post example_b64 client_without_cache ''TI-1''
        = Inr ''LABEL PDF''"
    using print_by_id_works [of client_with_cache] print_by_id_works [of client_without_cache]
    by (simp_all add: client_with_cache_def client_without_cache_def)
  note t1 = label_retrieval_tiers [of client_with_cache "''TI-1''" ?ti both_work_post
      example_b64 "''LABEL PDF''"]
  note t2 = label_retrieval_tiers [of client_with_cache "''TI-1''" ?ti by_id_only_post
      example_b64 _ "HTTPError 500"]
  note t3 = label_retrieval_tiers [of client_without_cache "''TI-1''" _ by_id_only_post
      example_b64]
  have w1: "get_label both_work_post example_b64 client_with_cache ''TI-1'' = Inr ''LABEL PDF''
      \<and> (\<exists>sl. get_all_documents both_work_post example_b64 client_with_cache ''TI-1''
             = Inr (''LABEL PDF'', sl))"
    using t1 [THEN conjunct1] c print_documents_both_work by blast
  have f2: "ti_cache client_with_cache ''TI-1'' = None
        \<or> (\<exists>ti. ti_cache client_with_cache ''TI-1'' = Some ti
               \<and> (\<not> truthy ti
                  \<or> (\<exists>e. print_documents by_id_only_post example_b64 client_with_cache ti
                         = Inl e)))"
    using c print_documents_refused by blast
  have w2: "get_label by_id_only_post example_b64 client_with_cache ''TI-1'' = Inr ''LABEL PDF''"
    using t2 [THEN conjunct2, THEN conjunct1, THEN mp, OF f2] b(1) by simp
  have w3: "get_label by_id_only_post example_b64 client_without_cache ''TI-1''
      = Inr ''LABEL PDF''"
    using t3 [THEN conjunct2, THEN conjunct1] c(3) b(2) by simp
  have w4: "get_all_documents by_id_only_post example_b64 client_without_cache ''TI-1''
       = Inl (NoCachedTIError ''TI-1'')"
    using t3 c(3) by blast
  have w5: "get_all_documents by_id_only_post example_b64 client_with_cache ''TI-1''
       = Inl (HTTPError 500)"
    using t2 c print_documents_refused by blast
  show ?thesis
    using w1 w2 w3 w4 w5 by simp
qed

text \<open>
  The claim as written fails for the retrieval that the orchestrator uses. On a Print
  API where only the request by identifier works, \<open>get_label\<close> returns the label,
  but \<open>get_all_documents\<close> fails, without a cached response and with one: it never
  falls back to the request by identifier, and its failure is not the error of
  \<open>get_label\<close>.
\<close>

theorem get_all_documents_no_fallback_counterexample:
  "get_label by_id_only_post example_b64 client_without_cache ''TI-1'' = Inr ''LABEL PDF''
   \<and> get_all_documents by_id_only_post example_b64 client_without_cache ''TI-1''
       = Inl (NoCachedTIError ''TI-1'')
   \<and> get_label by_id_only_post example_b64 client_with_cache ''TI-1'' = Inr ''LABEL PDF''
   \<and> get_all_documents by_id_only_post example_b64 client_with_cache ''TI-1''
       = Inl (HTTPError 500)"
proof -
  have b: "print_documents_by_id by_id_only_post example_b64 client_with_cache ''TI-1''
        = Inr ''LABEL PDF''"
    "print_documents_by_id by_id_only_post example_b64 client_without_cache ''TI-1''
        = Inr ''LABEL PDF''"
    using print_by_id_works [of client_with_cache] print_by_id_works [of client_without_cache]
    by (simp_all add: client_with_cache_def client_without_cache_def)
  have c: "ti_cache client_with_cache ''TI-1'' = Some (JObj [(''id'', JStr ''TI-1'')])"
    "ti_cache client_without_cache ''TI-1'' = None"
    by (simp_all add: client_with_cache_def client_without_cache_def)
  show ?thesis
    using b c print_documents_refused
    by (simp add: get_label_def get_all_documents_def Let_def)
qed

section \<open>Steps of the orchestrator\<close>

lemma notify_simps:
  "files (notify cb ev st) = files st"
  "world (notify cb ev st) = world st"
  "notified (notify cb ev st) = notified st @ [ev]"
  by (simp_all add: notify_def Let_def split: option.splits)


lemma and_then_cases:
  assumes "and_then m f st = (r, st')"
  obtains (raised) e where "m st = (Inl e, st')" "r = Inl e"
  | (returned) x st1 where "m st = (Inr x, st1)" "f x st1 = (r, st')"
  using assms by (auto simp add: and_then_def split: prod.splits sum.splits)

lemma acquire_lock_fresh:
  assumes "with_suffix filepath ''.lock'' = Inr lock_path" "files st lock_path = None"
  shows "acquire_lock self filepath st =
    (Inr True, st\<lparr>files := (files st)(lock_path \<mapsto> \<lparr>fcontent = [], mtime = now self\<rparr>)\<rparr>)"
  using assms by (simp add: acquire_lock_def)



lemma release_lock_files:
  assumes "with_suffix filepath ''.lock'' = Inr lock_path"
  shows "files (release_lock filepath st) = (files st)(lock_path := None)"
    and "notified (release_lock filepath st) = notified st"
    and "world (release_lock filepath st) = world st"
    and "callback_errors (release_lock filepath st) = callback_errors st"
  using assms by (simp_all add: release_lock_def)



section \<open>The callback is isolated\<close>






















section \<open>Shipments of a file\<close>

lemma quiet_refl: "quiet st st"
  by (simp add: quiet_def)

lemma quiet_trans: "quiet a b \<Longrightarrow> quiet b c \<Longrightarrow> quiet a c"
  by (auto simp add: quiet_def)

lemma and_then_quiet:
  assumes "and_then m f st = (r, st')"
    and m: "\<And>st r st'. m st = (r, st') \<Longrightarrow> quiet st st'"
    and f: "\<And>x st r st'. f x st = (r, st') \<Longrightarrow> quiet st st'"
  shows "quiet st st'"
  using assms(1)
proof (cases rule: and_then_cases)
  case (raised e)
  then show ?thesis using m by blast
next
  case (returned x st1)
  then show ?thesis using m f quiet_trans by blast
qed

lemma quiet_post:
  assumes "quiet a b" "shipment_post s b r c"
  shows "shipment_post s a r c"
  using assms by (cases r) (auto simp add: quiet_def shipment_post_def)

lemma quiet_raise: "quiet a b \<Longrightarrow> shipment_post s a (Inl e) b"
  by (simp add: quiet_def shipment_post_def)

lemma and_then_post:
  assumes "and_then m f st = (r, st')"
    and m: "\<And>st r st'. m st = (r, st') \<Longrightarrow> quiet st st'"
    and f: "\<And>x st r st'. f x st = (r, st') \<Longrightarrow> shipment_post s st r st'"
  shows "shipment_post s st r st'"
  using assms(1)
proof (cases rule: and_then_cases)
  case (raised e)
  then show ?thesis using m quiet_raise by blast
next
  case (returned x st1)
  then show ?thesis using m f quiet_post by blast
qed

lemma pure_quiet: "Pair x st = (r, st') \<Longrightarrow> quiet st st'"
  by (auto simp add: quiet_def)

lemma call_quiet: "call m st = (r, st') \<Longrightarrow> quiet st st'"
  by (auto simp add: call_def quiet_def split: prod.splits)

lemma write_file_quiet: "write_file self p d st = (r, st') \<Longrightarrow> quiet st st'"
  by (auto simp add: write_file_def quiet_def)

lemma request_pickup_quiet:
  "request_pickup_if_booked self svc sid st = (r, st') \<Longrightarrow> quiet st st'"
  by (auto simp add: request_pickup_if_booked_def quiet_refl split: option.splits if_splits
      dest: call_quiet)

lemma save_and_print_list_quiet:
  assumes "save_and_print_list self s sl st = (r, st')"
  shows "quiet st st'"
proof (cases sl)
  case None
  then show ?thesis using assms by (auto simp add: save_and_print_list_def quiet_refl)
next
  case (Some d)
  show ?thesis
  proof (cases "d = []")
    case True
    then show ?thesis
      using Some assms by (auto simp add: save_and_print_list_def quiet_refl)
  next
    case False
    then have "and_then
        (write_file self (Path (label_cache self) (order_no s @ ''_shipmentlist.pdf'')) d)
        (\<lambda>_. and_then (call (printer_print_document self d ''pdf'' (order_no s)))
               (\<lambda>_. Pair (Inr ()))) st = (r, st')"
      using Some assms by (simp add: save_and_print_list_def)
    then show ?thesis
      apply (rule and_then_quiet)
       apply (erule write_file_quiet)
      apply (erule and_then_quiet)
       apply (erule call_quiet)
      apply (erule pure_quiet)
      done
  qed
qed

lemma send_customer_mail_quiet:
  assumes "send_customer_mail self s k t st = (r, st')"
  shows "quiet st st'"
proof -
  have m: "and_then (call (emailer_send_tracking_email self e o' t k msg))
           (\<lambda>_. Pair (Inr ())) st = (r, st') \<Longrightarrow> quiet st st'" for e o' msg
    apply (erule and_then_quiet)
     apply (erule call_quiet)
    apply (erule pure_quiet)
    done
  show ?thesis
    using assms m
    by (auto simp add: send_customer_mail_def Let_def quiet_refl
        split: option.splits if_splits)
qed

lemma process_single_post:
  assumes "process_single self cb s st = (r, st')"
  shows "shipment_post s st r st'"
proof (cases "service s")
  case None
  then show ?thesis
    using assms by (auto simp add: process_single_def shipment_post_def)
next
  case (Some svc)
  show ?thesis
  proof (cases "carrier svc = DHL")
    case False
    then show ?thesis
      using Some assms by (auto simp add: process_single_def shipment_post_def)
  next
    case True
    show ?thesis
      using assms Some True
      unfolding process_single_def
      apply simp
      apply (erule and_then_post)
       apply (erule call_quiet)
      apply (simp only: split_paired_all prod.case)
      apply (erule and_then_post)
       apply (erule call_quiet)
      apply (simp only: split_paired_all prod.case)
      apply (erule and_then_post)
       apply (erule request_pickup_quiet)
      apply (erule and_then_post)
       apply (erule write_file_quiet)
      apply (erule and_then_post)
       apply (erule call_quiet)
      apply (erule and_then_post)
       apply (erule save_and_print_list_quiet)
      apply (erule and_then_post)
       apply (erule send_customer_mail_quiet)
      apply (auto simp add: shipment_post_def notify_simps)
      done
  qed
qed

lemma process_shipments_events:
  assumes "process_shipments self cb ss ok st = (ok', st')"
  shows "dom (files st) \<subseteq> dom (files st')
     \<and> ok' = (ok \<and> list_all (\<lambda>r. \<not> isl r) (shipment_outcomes self cb ss st))
     \<and> (\<exists>evs. notified st' = notified st @ evs
            \<and> list_all2 (\<lambda>(s, r) ev. event_for s r ev)
                 (zip ss (shipment_outcomes self cb ss st)) evs)"
  using assms
proof (induction ss arbitrary: ok st)
  case Nil
  then show ?case by simp
next
  case (Cons s ss)
  obtain r st1 where p: "process_single self cb s st = (r, st1)"
    by (cases "process_single self cb s st")
  note post = process_single_post [OF p]
  show ?case
  proof (cases r)
    case (Inr u)
    then have rest: "process_shipments self cb ss ok st1 = (ok', st')"
      using Cons.prems p by simp
    from post Inr obtain ev where ev: "notified st1 = notified st @ [ev]"
      "event_for s (Inr u) ev" and d: "dom (files st) \<subseteq> dom (files st1)"
      by (auto simp add: shipment_post_def)
    from Cons.IH [OF rest] obtain evs where
      ih: "dom (files st1) \<subseteq> dom (files st')"
        "ok' = (ok \<and> list_all (\<lambda>r. \<not> isl r) (shipment_outcomes self cb ss st1))"
        "notified st' = notified st1 @ evs"
        "list_all2 (\<lambda>(s, r) ev. event_for s r ev)
           (zip ss (shipment_outcomes self cb ss st1)) evs"
      by blast
    have o: "shipment_outcomes self cb (s # ss) st = Inr u # shipment_outcomes self cb ss st1"
      using p Inr by simp
    have "notified st' = notified st @ (ev # evs)"
      using ev(1) ih(3) by simp
    moreover have "list_all2 (\<lambda>(s, r) ev. event_for s r ev)
        (zip (s # ss) (shipment_outcomes self cb (s # ss) st)) (ev # evs)"
      unfolding o using ev(2) ih(4) by simp
    ultimately have "\<exists>evs. notified st' = notified st @ evs
            \<and> list_all2 (\<lambda>(s, r) ev. event_for s r ev)
                 (zip (s # ss) (shipment_outcomes self cb (s # ss) st)) evs"
      by blast
    then show ?thesis
      using d ih(1,2) o by auto
  next
    case (Inl e)
    let ?n = "notify cb (ShipmentError (order_no s) (str_of e)) st1"
    have rest: "process_shipments self cb ss False ?n = (ok', st')"
      using Cons.prems p Inl by simp
    from post Inl have n1: "notified st1 = notified st"
      and d: "dom (files st) \<subseteq> dom (files st1)"
      by (auto simp add: shipment_post_def)
    from Cons.IH [OF rest] obtain evs where
      ih: "dom (files ?n) \<subseteq> dom (files st')"
        "ok' = (False \<and> list_all (\<lambda>r. \<not> isl r) (shipment_outcomes self cb ss ?n))"
        "notified st' = notified ?n @ evs"
        "list_all2 (\<lambda>(s, r) ev. event_for s r ev)
           (zip ss (shipment_outcomes self cb ss ?n)) evs"
      by blast
    have o: "shipment_outcomes self cb (s # ss) st = Inl e # shipment_outcomes self cb ss ?n"
      using p Inl by simp
    have "notified st' = notified st @ (ShipmentError (order_no s) (str_of e) # evs)"
      using n1 ih(3) by (simp add: notify_simps)
    moreover have "list_all2 (\<lambda>(s, r) ev. event_for s r ev)
        (zip (s # ss) (shipment_outcomes self cb (s # ss) st))
        (ShipmentError (order_no s) (str_of e) # evs)"
      unfolding o using ih(4) by simp
    ultimately have "\<exists>evs. notified st' = notified st @ evs
            \<and> list_all2 (\<lambda>(s, r) ev. event_for s r ev)
                 (zip (s # ss) (shipment_outcomes self cb (s # ss) st)) evs"
      by blast
    then show ?thesis
      using d ih(1,2) o by (auto simp add: notify_simps)
  qed
qed

lemma shipment_outcomes_length: "length (shipment_outcomes self cb ss st) = length ss"
  by (induction ss arbitrary: st) (auto split: prod.splits sum.splits)

lemma with_suffix_parent: "with_suffix p suffix = Inr q \<Longrightarrow> parent q = parent p"
  by (auto simp add: with_suffix_def split: if_splits)

lemma acquire_lock_true:
  assumes "with_suffix filepath ''.lock'' = Inr lock_path"
    and "acquire_lock self filepath st = (Inr True, st1)"
  shows "st1 = st\<lparr>files := (files st)(lock_path \<mapsto> \<lparr>fcontent = [], mtime = now self\<rparr>)\<rparr>"
  using assms
  by (auto simp add: acquire_lock_def Let_def split: option.splits if_splits)

lemma move_to_done_result:
  assumes "files st filepath = Some f"
  shows "move_to_done self filepath st =
     (Inr (), st\<lparr>files := ((files st)(filepath := None))
        (Path (done_dir self) (time_stamp self @ ''_'' @ fname filepath) \<mapsto> f)\<rparr>)"
  using assms by (simp add: move_to_done_def move_file_def)

lemma move_to_error_result:
  assumes "files st filepath = Some f"
    and "with_suffix (Path (error_dir self) (time_stamp self @ ''_'' @ fname filepath))
           ''.error.txt'' = Inr sidecar"
  shows "move_to_error self filepath reason st =
     (Inr (), st\<lparr>files := (((files st)(filepath := None))
        (Path (error_dir self) (time_stamp self @ ''_'' @ fname filepath) \<mapsto> f))
        (sidecar \<mapsto> \<lparr>fcontent = error_text (time_stamp self) (fname filepath) reason,
                      mtime = now self\<rparr>)\<rparr>)"
  using assms
  by (simp add: move_to_error_def move_file_def and_then_def write_file_def Let_def)

text \<open>
  C1. Take a file that exists, whose lock is acquired and whose content the parser
  turns into the shipments \<open>s1..sn\<close>, in a directory that is neither the done nor the
  error directory. Then every shipment is processed, whether or not an earlier one
  raised: there is one outcome per shipment, and after the events notified before,
  \<open>process_file\<close> has notified one event per shipment, in order, a \<open>shipment_error\<close>
  with the order number and the text of the exception for a shipment whose processing
  raised and a \<open>shipment_ok\<close> with the order number for one whose processing
  returned, followed by one event for the file. \<open>process_file\<close> returns whether no
  shipment raised. If none raised, the file is no longer at its path and is in the
  done directory under the time stamp, an underscore and its name, and the last event
  is \<open>file_done\<close>. If one raised, the file is no longer at its path and is in the
  error directory under the same kind of name, the sidecar beside it holds the time,
  the file's name and the reason, and the last event is \<open>file_error\<close>. In both cases
  the lock marker is gone.
\<close>

theorem shipment_failures_isolated:
  assumes ws: "with_suffix filepath ''.lock'' = Inr lock_path"
    and ne: "lock_path \<noteq> filepath"
    and acq: "acquire_lock self filepath st = (Inr True, st1)"
    and ex: "files st filepath = Some f"
    and parse: "parse_xml self (fcontent f) = Inr shipments"
    and dd: "parent filepath \<noteq> done_dir self"
    and de: "parent filepath \<noteq> error_dir self"
    and sc: "with_suffix (Path (error_dir self) (time_stamp self @ ''_'' @ fname filepath))
               ''.error.txt'' = Inr sidecar"
    and run: "process_file self cb filepath st = (r, st')"
    and outs: "outcomes = shipment_outcomes self cb shipments st1"
  shows "length outcomes = length shipments
     \<and> r = Inr (list_all (\<lambda>r. \<not> isl r) outcomes)
     \<and> (\<exists>evs. notified st' = notified st @ evs @
                  [if list_all (\<lambda>r. \<not> isl r) outcomes then FileDone (fname filepath)
                   else FileError (fname filepath) partial_failure]
            \<and> length evs = length shipments
            \<and> (\<forall>i<length shipments. event_for (shipments ! i) (outcomes ! i) (evs ! i)))
     \<and> files st' filepath = None
     \<and> files st' lock_path = None
     \<and> (list_all (\<lambda>r. \<not> isl r) outcomes \<longrightarrow>
          files st' (Path (done_dir self) (time_stamp self @ ''_'' @ fname filepath)) \<noteq> None)
     \<and> (\<not> list_all (\<lambda>r. \<not> isl r) outcomes \<longrightarrow>
          files st' (Path (error_dir self) (time_stamp self @ ''_'' @ fname filepath)) \<noteq> None
          \<and> map_option fcontent (files st' sidecar)
              = Some (error_text (time_stamp self) (fname filepath) partial_failure))"
proof -
  let ?done = "Path (done_dir self) (time_stamp self @ ''_'' @ fname filepath)"
  let ?err = "Path (error_dir self) (time_stamp self @ ''_'' @ fname filepath)"
  let ?ok = "list_all (\<lambda>r. \<not> isl r) outcomes"
  have lp: "parent lock_path = parent filepath"
    by (rule with_suffix_parent [OF ws])
  have sp: "parent sidecar = error_dir self"
    using with_suffix_parent [OF sc] by simp
  have neq: "?done \<noteq> filepath" "?err \<noteq> filepath" "sidecar \<noteq> filepath"
    "?done \<noteq> lock_path" "?err \<noteq> lock_path" "sidecar \<noteq> lock_path"
  proof -
    have pne: "Path d n \<noteq> q" if "parent q \<noteq> d" for d n q
      using that by (cases q) auto
    show "?done \<noteq> filepath" "?err \<noteq> filepath" "?done \<noteq> lock_path" "?err \<noteq> lock_path"
      using dd de lp by (simp_all add: pne)
    show "sidecar \<noteq> filepath" "sidecar \<noteq> lock_path"
      using de lp sp by auto
  qed
  have st1: "st1 = st\<lparr>files := (files st)(lock_path \<mapsto> \<lparr>fcontent = [], mtime = now self\<rparr>)\<rparr>"
    by (rule acquire_lock_true [OF ws acq])
  have f1: "files st1 filepath = Some f" and n1: "notified st1 = notified st"
    using st1 ex ne by simp_all
  have pf: "parse_file self filepath st1 = (Inr shipments, st1)"
    using f1 parse by (simp add: parse_file_def)
  obtain ok st2 where ps: "process_shipments self cb shipments True st1 = (ok, st2)"
    by (cases "process_shipments self cb shipments True st1")
  from process_shipments_events [OF ps] outs obtain evs where
    d2: "dom (files st1) \<subseteq> dom (files st2)"
    and ok: "ok = ?ok"
    and n2: "notified st2 = notified st1 @ evs"
    and l2: "list_all2 (\<lambda>(s, r) ev. event_for s r ev) (zip shipments outcomes) evs"
    by auto
  have len: "length outcomes = length shipments"
    using outs by (simp add: shipment_outcomes_length)
  have levs: "length evs = length shipments"
    using l2 len by (auto dest: list_all2_lengthD)
  have nth: "\<forall>i<length shipments. event_for (shipments ! i) (outcomes ! i) (evs ! i)"
  proof (intro allI impI)
    fix i
    assume i: "i < length shipments"
    then have "(\<lambda>(s, r) ev. event_for s r ev) (zip shipments outcomes ! i) (evs ! i)"
      using l2 len by (auto simp add: list_all2_conv_all_nth)
    then show "event_for (shipments ! i) (outcomes ! i) (evs ! i)"
      using i len by simp
  qed
  obtain f2 where f2: "files st2 filepath = Some f2"
    using d2 f1 by auto
  have rel: "files (release_lock filepath s) = (files s)(lock_path := None)"
    "notified (release_lock filepath s) = notified s" for s
    by (simp_all add: release_lock_files [OF ws])
  show ?thesis
  proof (cases ok)
    case True
    let ?st3 = "st2\<lparr>files := ((files st2)(filepath := None))(?done \<mapsto> f2)\<rparr>"
    have t: "process_file_try self cb filepath st1
        = (Inr True, notify cb (FileDone (fname filepath)) ?st3)"
      using pf ps True move_to_done_result [OF f2, of self]
      by (simp add: process_file_try_def and_then_def)
    then have "process_file self cb filepath st
        = (Inr True, release_lock filepath (notify cb (FileDone (fname filepath)) ?st3))"
      using acq by (simp add: process_file_def process_file_except_def)
    then have r: "r = Inr True"
      and s: "st' = release_lock filepath (notify cb (FileDone (fname filepath)) ?st3)"
      using run by simp_all
    have fs: "files st' = (((files st2)(filepath := None))(?done \<mapsto> f2))(lock_path := None)"
      unfolding s by (simp add: rel notify_simps)
    have ns: "notified st' = notified st @ evs @ [FileDone (fname filepath)]"
      unfolding s by (simp add: rel notify_simps n2 n1)
    have "files st' filepath = None" "files st' lock_path = None" "files st' ?done \<noteq> None"
      unfolding fs using neq by simp_all
    then show ?thesis
      using True ok r ns len levs nth by auto
  next
    case False
    let ?st3 = "st2\<lparr>files := (((files st2)(filepath := None))(?err \<mapsto> f2))
        (sidecar \<mapsto> \<lparr>fcontent = error_text (time_stamp self) (fname filepath) partial_failure,
                      mtime = now self\<rparr>)\<rparr>"
    have t: "process_file_try self cb filepath st1
        = (Inr False, notify cb (FileError (fname filepath) partial_failure) ?st3)"
      using pf ps False move_to_error_result [OF f2 sc, of partial_failure]
      by (simp add: process_file_try_def and_then_def)
    then have "process_file self cb filepath st
        = (Inr False,
           release_lock filepath (notify cb (FileError (fname filepath) partial_failure) ?st3))"
      using acq by (simp add: process_file_def process_file_except_def)
    then have r: "r = Inr False"
      and s: "st' = release_lock filepath
                (notify cb (FileError (fname filepath) partial_failure) ?st3)"
      using run by simp_all
    have fs: "files st' = ((((files st2)(filepath := None))(?err \<mapsto> f2))
        (sidecar \<mapsto> \<lparr>fcontent = error_text (time_stamp self) (fname filepath) partial_failure,
                      mtime = now self\<rparr>))(lock_path := None)"
      unfolding s by (simp add: rel notify_simps)
    have ns: "notified st' = notified st @ evs @ [FileError (fname filepath) partial_failure]"
      unfolding s by (simp add: rel notify_simps n2 n1)
    have "files st' filepath = None" "files st' lock_path = None" "files st' ?err \<noteq> None"
      "map_option fcontent (files st' sidecar)
         = Some (error_text (time_stamp self) (fname filepath) partial_failure)"
      unfolding fs using neq by simp_all
    then show ?thesis
      using False ok r ns len levs nth by auto
  qed
qed

section \<open>A file with two shipments\<close>

lemma order_xml_lock:
  "with_suffix (Path ''in'' ''order.xml'') ''.lock'' = Inr (Path ''in'' ''order.lock'')"
  by (simp add: with_suffix_def suffix_of_def)

lemma order_xml_sidecar:
  "with_suffix (Path (error_dir example_orchestrator)
       (time_stamp example_orchestrator @ ''_'' @ fname (Path ''in'' ''order.xml'')))
     ''.error.txt'' = Inr (Path ''error'' ''20260101_120000_order.error.txt'')"
  by (simp add: with_suffix_def suffix_of_def example_orchestrator_def)

lemma process_single_A:
  "process_single example_orchestrator cb (example_order ''A'') st
   = (Inr (), notify cb (ShipmentOk ''A'' ''TRK-A'' ''DHL'')
        (st\<lparr>world := world st @ [''A''],
            files := (files st)(Path ''labels'' ''A.pdf'' \<mapsto>
                        \<lparr>fcontent = ''LABEL PDF'', mtime = 1000\<rparr>)\<rparr>))"
  by (simp add: process_single_def example_order_def example_shipment_def example_orchestrator_def
      and_then_def call_def write_file_def request_pickup_if_booked_def save_and_print_list_def
      send_customer_mail_def example_receiver_def)

lemma process_single_B:
  "process_single example_orchestrator cb (example_order ''B'') st
   = (Inl (PyException ''500 Server Error''), st)"
  by (simp add: process_single_def example_order_def example_shipment_def example_orchestrator_def
      and_then_def call_def)

lemma acquire_example_fresh:
  "acquire_lock example_orchestrator (Path ''in'' ''order.xml'') (example_state c None)
   = (Inr True,
      (example_state c None)
        \<lparr>files := (files (example_state c None))
           (Path ''in'' ''order.lock'' \<mapsto> \<lparr>fcontent = [], mtime = 1000\<rparr>)\<rparr>)"
proof -
  have "files (example_state c None) (Path ''in'' ''order.lock'') = None"
    by (simp add: example_state_def)
  then show ?thesis
    using acquire_lock_fresh [OF order_xml_lock, of "example_state c None" example_orchestrator]
    by (simp add: example_orchestrator_def)
qed

lemma example_outcomes:
  "shipment_outcomes example_orchestrator cb [example_order ''A'', example_order ''B''] st
   = [Inr (), Inl (PyException ''500 Server Error'')]"
  by (simp add: process_single_A process_single_B)

theorem shipment_failures_isolated_witness:
  "fst (process_file example_orchestrator failing_callback (Path ''in'' ''order.xml'')
          (example_state ''two'' None)) = Inr False
   \<and> (\<exists>evs. notified (snd (process_file example_orchestrator failing_callback
                 (Path ''in'' ''order.xml'') (example_state ''two'' None)))
             = evs @ [FileError ''order.xml'' partial_failure]
          \<and> length evs = 2
          \<and> event_for (example_order ''A'') (Inr ()) (evs ! 0)
          \<and> event_for (example_order ''B'') (Inl (PyException ''500 Server Error'')) (evs ! 1))
   \<and> files (snd (process_file example_orchestrator failing_callback (Path ''in'' ''order.xml'')
          (example_state ''two'' None))) (Path ''in'' ''order.xml'') = None
   \<and> files (snd (process_file example_orchestrator failing_callback (Path ''in'' ''order.xml'')
          (example_state ''two'' None))) (Path ''in'' ''order.lock'') = None
   \<and> files (snd (process_file example_orchestrator failing_callback (Path ''in'' ''order.xml'')
          (example_state ''two'' None))) (Path ''error'' ''20260101_120000_order.xml'') \<noteq> None
   \<and> map_option fcontent
        (files (snd (process_file example_orchestrator failing_callback (Path ''in'' ''order.xml'')
          (example_state ''two'' None))) (Path ''error'' ''20260101_120000_order.error.txt''))
      = Some (error_text ''20260101_120000'' ''order.xml'' partial_failure)"
proof -
  let ?p = "Path ''in'' ''order.xml''"
  let ?st = "example_state ''two'' None"
  let ?run = "process_file example_orchestrator failing_callback ?p ?st"
  let ?outs = "[Inr (), Inl (PyException ''500 Server Error'')] :: (py_exception + unit) list"
  have ne: "Path ''in'' ''order.lock'' \<noteq> ?p" by simp
  have ex: "files ?st ?p = Some \<lparr>fcontent = ''two'', mtime = 990\<rparr>"
    by (simp add: example_state_def)
  have parse: "parse_xml example_orchestrator (fcontent \<lparr>fcontent = ''two'', mtime = 990\<rparr>)
      = Inr [example_order ''A'', example_order ''B'']"
    by (simp add: example_orchestrator_def)
  have dd: "parent ?p \<noteq> done_dir example_orchestrator"
    and de: "parent ?p \<noteq> error_dir example_orchestrator"
    by (simp_all add: example_orchestrator_def)
  have run: "?run = (fst ?run, snd ?run)" by simp
  have outs: "?outs = shipment_outcomes example_orchestrator failing_callback
      [example_order ''A'', example_order ''B'']
      (?st\<lparr>files := (files ?st)(Path ''in'' ''order.lock'' \<mapsto> \<lparr>fcontent = [], mtime = 1000\<rparr>)\<rparr>)"
    by (simp only: example_outcomes)
  note t = shipment_failures_isolated [OF order_xml_lock ne acquire_example_fresh ex parse
      dd de order_xml_sidecar run outs]
  have ok: "list_all (\<lambda>r. \<not> isl r) ?outs = False" by simp
  from t obtain evs where
    evs: "notified (snd ?run) = notified ?st @ evs @
            [if list_all (\<lambda>r. \<not> isl r) ?outs
             then FileDone (fname ?p) else FileError (fname ?p) partial_failure]"
      "length evs = length [example_order ''A'', example_order ''B'']"
      "\<forall>i<length [example_order ''A'', example_order ''B''].
          event_for ([example_order ''A'', example_order ''B''] ! i) (?outs ! i) (evs ! i)"
    by blast
  have e0: "event_for (example_order ''A'') (Inr ()) (evs ! 0)"
    using evs(3) [THEN spec, of 0] by simp
  have e1: "event_for (example_order ''B'') (Inl (PyException ''500 Server Error'')) (evs ! 1)"
    using evs(3) [THEN spec, of 1] by simp
  have n: "notified (snd ?run) = evs @ [FileError ''order.xml'' partial_failure]"
    using evs(1) by (simp add: example_state_def)
  have l: "length evs = 2" using evs(2) by simp
  have ev: "\<exists>evs. notified (snd ?run) = evs @ [FileError ''order.xml'' partial_failure]
          \<and> length evs = 2
          \<and> event_for (example_order ''A'') (Inr ()) (evs ! 0)
          \<and> event_for (example_order ''B'') (Inl (PyException ''500 Server Error'')) (evs ! 1)"
    using n l e0 e1 by blast
  have r: "fst ?run = Inr False"
    using t ok by simp
  have f: "files (snd ?run) ?p = None" "files (snd ?run) (Path ''in'' ''order.lock'') = None"
    using t by simp_all
  have g: "files (snd ?run) (Path ''error'' ''20260101_120000_order.xml'') \<noteq> None
     \<and> map_option fcontent (files (snd ?run) (Path ''error'' ''20260101_120000_order.error.txt''))
        = Some (error_text ''20260101_120000'' ''order.xml'' partial_failure)"
    using t ok by (simp add: example_orchestrator_def)
  show ?thesis
    using r ev f g by simp
qed

section \<open>The lock on an example\<close>


end
